theory Spec2Isabelle
  imports Complex_Main "HOL-Library.Option_ord"
begin

section \<open>Incoming damage timeline: a model of main.py and generate_static_page.py\<close>

text \<open>
  The development follows the source files function by function. A polars DataFrame is a
  list of rows (a record per row, one field per column), a nullable column has an
  \<open>option\<close> type, and every place where Python raises is a value \<open>Inl e\<close> of a sum.
  The Float64 columns (\<open>elapsed_seconds\<close>, medians) are modelled by exact rationals.
  The data that the FFLogs API sends back is an input of the model.
\<close>

subsection \<open>Exceptions\<close>

datatype exn =
    KeyError
  | IndexError
  | ValueError
  | InvalidOperationError
  | HTTPError nat
  | ConnectionError
  | JSONDecodeError

subsection \<open>The API response, as far as the code reads it\<close>

record ability =
  ab_name :: string
  ab_guid :: int
  ab_type :: int

text \<open>One record of \<open>events.data\<close> or \<open>startingEvent.data\<close>.\<close>

record raw_event =
  raw_type :: string
  raw_timestamp :: int
  raw_packetID :: "int option"
  raw_hitType :: "int option"
  raw_amount :: "int option"
  raw_unmitigatedAmount :: "int option"
  raw_targetID :: int
  raw_buffs :: "string option"
  raw_ability :: ability

record player =
  pl_name :: string
  pl_id :: int
  pl_icon :: string

record aura =
  au_name :: string
  au_guid :: int

text \<open>
  \<open>startingEvent\<close> is \<open>None\<close> when the block cannot be read into a table with a
  \<open>type\<close> and a \<open>timestamp\<close> column (a missing key, an empty list).
\<close>

record event_response =
  playerDetails :: "(string \<times> player list) list"
  buffTable :: "aura list"
  startingEvent :: "raw_event list option"
  events :: "raw_event list"

subsection \<open>Three-valued column logic\<close>

text \<open>
  A Boolean polars expression evaluates to true, false or null on each row;
  \<open>filter\<close> keeps the rows where it is true.
\<close>

definition k_not :: "bool option \<Rightarrow> bool option" where
  "k_not a = map_option Not a"

definition k_and :: "bool option \<Rightarrow> bool option \<Rightarrow> bool option" where
  "k_and a b =
     (if a = Some False \<or> b = Some False then Some False
      else if a = Some True \<and> b = Some True then Some True
      else None)"

definition is_not_null :: "'a option \<Rightarrow> bool option" where
  "is_not_null a = Some (a \<noteq> None)"

definition k_less :: "int option \<Rightarrow> int \<Rightarrow> bool option" where
  "k_less a c = map_option (\<lambda>v. v < c) a"

definition df_filter :: "('a \<Rightarrow> bool option) \<Rightarrow> 'a list \<Rightarrow> 'a list" where
  "df_filter p rows = filter (\<lambda>r. p r = Some True) rows"

subsection \<open>String helpers of the column expressions\<close>

definition char_lower :: "char \<Rightarrow> char" where
  "char_lower c =
     (let n = (of_char c :: nat) in if 65 \<le> n \<and> n \<le> 90 then char_of (n + 32) else c)"

definition lower :: "string \<Rightarrow> string" where
  "lower s = map char_lower s"

definition strip_chars_end :: "char \<Rightarrow> string \<Rightarrow> string" where
  "strip_chars_end d s = rev (dropWhile (\<lambda>c. c = d) (rev s))"

fun split :: "char \<Rightarrow> string \<Rightarrow> string list" where
  "split d [] = [[]]"
| "split d (c # cs) =
     (if c = d then [] # split d cs
      else (case split d cs of [] \<Rightarrow> [[c]] | w # ws \<Rightarrow> (c # w) # ws))"

definition is_digit :: "char \<Rightarrow> bool" where
  "is_digit c = (let n = (of_char c :: nat) in 48 \<le> n \<and> n \<le> 57)"

definition digits_to_nat :: "string \<Rightarrow> nat" where
  "digits_to_nat s = foldl (\<lambda>a c. 10 * a + (of_char c - 48)) 0 s"

text \<open>The strict cast of one string to Int64: decimal digits, with an optional minus sign.\<close>

definition cast_int64 :: "string \<Rightarrow> int option" where
  "cast_int64 s =
     (case s of
        [] \<Rightarrow> None
      | c # cs \<Rightarrow>
          if c = CHR ''-'' then
            (if cs \<noteq> [] \<and> list_all is_digit cs then Some (- int (digits_to_nat cs)) else None)
          else if list_all is_digit s then Some (int (digits_to_nat s)) else None)"

fun cast_list :: "string list \<Rightarrow> exn + int list" where
  "cast_list [] = Inr []"
| "cast_list (s # ss) =
     (case cast_int64 s of
        None \<Rightarrow> Inl InvalidOperationError
      | Some v \<Rightarrow> (case cast_list ss of Inl e \<Rightarrow> Inl e | Inr vs \<Rightarrow> Inr (v # vs)))"

text \<open>\<open>make_buff_list_col\<close>: a null \<open>buffs\<close> string stays null.\<close>

definition make_buff_list_col :: "string option \<Rightarrow> exn + int list option" where
  "make_buff_list_col b =
     (case b of
        None \<Rightarrow> Inr None
      | Some s \<Rightarrow>
          (case cast_list (split (CHR ''.'') (strip_chars_end (CHR ''.'') s)) of
             Inl e \<Rightarrow> Inl e
           | Inr vs \<Rightarrow> Inr (Some vs)))"

text \<open>
  \<open>flag_vuln_status\<close>: \<open>list.eval(is_in).list.any()\<close> is null on a null list, and
  \<open>fill_null(False)\<close> turns that into false.
\<close>

definition has_vuln :: "int list \<Rightarrow> int list option \<Rightarrow> bool option" where
  "has_vuln vuln_ids bl = map_option (\<lambda>l. list_ex (\<lambda>b. b \<in> set vuln_ids) l) bl"

definition fill_null :: "'a \<Rightarrow> 'a option \<Rightarrow> 'a" where
  "fill_null d a = (case a of None \<Rightarrow> d | Some v \<Rightarrow> v)"

definition flag_vuln_status :: "int list \<Rightarrow> int list option \<Rightarrow> bool" where
  "flag_vuln_status vuln_ids bl = fill_null False (has_vuln vuln_ids bl)"

definition flag_tank_player_id :: "int list \<Rightarrow> int \<Rightarrow> bool" where
  "flag_tank_player_id tank_ids target = (if target \<in> set tank_ids then True else False)"

subsection \<open>Rendering an elapsed time\<close>

fun str_of_nat :: "nat \<Rightarrow> string" where
  "str_of_nat n =
     (if n < 10 then [char_of (48 + n)]
      else str_of_nat (n div 10) @ [char_of (48 + n mod 10)])"

definition str_of_int :: "int \<Rightarrow> string" where
  "str_of_int i = (if i < 0 then CHR ''-'' # str_of_nat (nat (- i)) else str_of_nat (nat i))"

definition zfill :: "nat \<Rightarrow> string \<Rightarrow> string" where
  "zfill w s =
     (if w \<le> length s then s
      else (case s of
              c # cs \<Rightarrow>
                if c = CHR ''-'' then c # replicate (w - length s) (CHR ''0'') @ cs
                else replicate (w - length s) (CHR ''0'') @ s
            | [] \<Rightarrow> replicate w (CHR ''0'')))"

definition floor_div :: "rat \<Rightarrow> rat \<Rightarrow> rat" where
  "floor_div a b = of_int \<lfloor>a / b\<rfloor>"

definition floor_mod :: "rat \<Rightarrow> rat \<Rightarrow> rat" where
  "floor_mod a b = a - b * of_int \<lfloor>a / b\<rfloor>"

definition cast_int :: "rat \<Rightarrow> int" where
  "cast_int r = (if 0 \<le> r then \<lfloor>r\<rfloor> else \<lceil>r\<rceil>)"

text \<open>
  \<open>format_elapsed_time\<close> renders a Float64 column with Float64 arithmetic, and its
  digits depend on the binary rounding: 1.001 seconds come out as \<open>00:01.000\<close>. Exact
  rationals do not reproduce that, so the rendering is a parameter
  \<open>format_elapsed_time\<close> of every function of the model that calls it. The function
  \<open>format_exact\<close> is the same expression in exact arithmetic; it serves as the
  rendering in the concrete runs below.
\<close>

type_synonym formatter = "rat \<Rightarrow> string"

definition format_exact :: formatter where
  "format_exact seconds =
     (let secs = floor_mod seconds 60 in
        zfill 2 (str_of_int (cast_int (floor_div seconds 60)))
        @ '':''
        @ zfill 2 (str_of_int (cast_int secs))
        @ ''.''
        @ zfill 3 (str_of_int (cast_int (floor_mod (secs * 1000) 1000))))"

subsection \<open>Party table, roles and vulnerability ids\<close>

definition get_party_table :: "event_response \<Rightarrow> player list" where
  "get_party_table resp = concat (map snd (playerDetails resp))"

definition TANKS :: "string list" where
  "TANKS = [''DarkKnight'', ''Gunbreaker'', ''Warrior'', ''Paladin'']"

definition get_role_ids :: "player list \<Rightarrow> int list \<times> int list" where
  "get_role_ids party_table =
     (map pl_id (filter (\<lambda>p. pl_icon p \<in> set TANKS) party_table),
      map pl_id (filter (\<lambda>p. \<not> pl_icon p \<in> set TANKS) party_table))"

definition get_vuln_ids :: "event_response \<Rightarrow> int list" where
  "get_vuln_ids resp =
     map au_guid (filter (\<lambda>b. lower (au_name b) = ''vulnerability up'') (buffTable resp))"

subsection \<open>The curated damage categories\<close>

text \<open>
  A value of the category dictionary: the new format is a dictionary of four optional
  entries, the old format a plain category. The dictionary itself is the list of its items.
\<close>

datatype metadata =
    MetaDict "string option" "bool option" "string option" "string option"
  | MetaValue "string option"

record category_row =
  cat_ability_id :: int
  cat_damage_category :: "string option"
  cat_is_tank_damage :: bool
  cat_ability_name :: "string option"
  cat_description :: "string option"

fun category_of :: "int \<Rightarrow> metadata \<Rightarrow> category_row" where
  "category_of ability_id (MetaDict dc itd an d) =
     \<lparr>cat_ability_id = ability_id,
      cat_damage_category = dc,
      cat_is_tank_damage = (case itd of None \<Rightarrow> False | Some b \<Rightarrow> b),
      cat_ability_name = an,
      cat_description = (case d of None \<Rightarrow> None | Some t \<Rightarrow> if t \<noteq> [] then Some t else None)\<rparr>"
| "category_of ability_id (MetaValue m) =
     \<lparr>cat_ability_id = ability_id,
      cat_damage_category = m,
      cat_is_tank_damage = False,
      cat_ability_name = None,
      cat_description = None\<rparr>"

definition get_damage_category_table :: "(int \<times> metadata) list \<Rightarrow> category_row list" where
  "get_damage_category_table party_damage_dict =
     map (\<lambda>(ability_id, m). category_of ability_id m) party_damage_dict"

subsection \<open>The start of the fight\<close>

text \<open>The \<open>try\<close> block of \<open>_get_start_timestamp\<close>, and the function with its fallback.\<close>

definition limit_break_timestamp :: "event_response \<Rightarrow> exn + int" where
  "limit_break_timestamp resp =
     (case startingEvent resp of
        None \<Rightarrow> Inl KeyError
      | Some evs \<Rightarrow>
          (case filter (\<lambda>e. raw_type e = ''limitbreakupdate'') evs of
             [] \<Rightarrow> Inl ValueError
           | e # _ \<Rightarrow> Inr (raw_timestamp e)))"

definition get_start_timestamp :: "event_response \<Rightarrow> exn + int" where
  "get_start_timestamp resp =
     (case limit_break_timestamp resp of
        Inr t \<Rightarrow> Inr t
      | Inl _ \<Rightarrow>
          (case events resp of
             [] \<Rightarrow> Inl IndexError
           | e # _ \<Rightarrow> Inr (raw_timestamp e)))"

subsection \<open>The damage events table\<close>

record damage_event =
  elapsed_seconds :: rat
  packetID :: "int option"
  hitType :: "int option"
  amount :: "int option"
  unmitigatedAmount :: "int option"
  targetID :: int
  buff_list :: "int list option"
  ability_name :: string
  ability_id :: int
  damage_type_id :: int
  formatted_time :: string
  is_tank :: bool
  is_vuln_damage :: bool
  damage_type :: string
  damage_category :: "string option"
  is_tank_damage :: "bool option"
  ability_name_right :: "string option"
  description :: "string option"
  group_by_field :: "rat option"

definition DAMAGE_TYPE :: "int \<Rightarrow> string option" where
  "DAMAGE_TYPE = [128 \<mapsto> ''Physical'', 1024 \<mapsto> ''Magical'']"

definition replace_strict :: "(int \<Rightarrow> string option) \<Rightarrow> string \<Rightarrow> int \<Rightarrow> string" where
  "replace_strict m d k = (case m k of None \<Rightarrow> d | Some v \<Rightarrow> v)"

text \<open>
  \<open>assign_group_by_field\<close>: the condition is null on a null category, and a null
  condition takes the \<open>otherwise\<close> branch. Both branches share one Float64 column.
\<close>

definition assign_group_by_field :: "string option \<Rightarrow> int option \<Rightarrow> rat \<Rightarrow> rat option" where
  "assign_group_by_field cat pid secs =
     (if map_option (\<lambda>c. c = ''party'') cat = Some True then map_option of_int pid
      else Some secs)"

text \<open>The \<open>select\<close> and the first \<open>with_columns\<close>: one row, before the join.\<close>

definition select_event ::
  "formatter \<Rightarrow> int \<Rightarrow> int list \<Rightarrow> int list \<Rightarrow> raw_event \<Rightarrow> exn + damage_event" where
  "select_event format_elapsed_time start_timestamp tank_ids vuln_ids e =
     (case make_buff_list_col (raw_buffs e) of
        Inl x \<Rightarrow> Inl x
      | Inr bl \<Rightarrow>
          (let secs = (of_int (raw_timestamp e - start_timestamp) / 1000 :: rat) in
           Inr \<lparr>elapsed_seconds = secs,
                packetID = raw_packetID e,
                hitType = raw_hitType e,
                amount = raw_amount e,
                unmitigatedAmount = raw_unmitigatedAmount e,
                targetID = raw_targetID e,
                buff_list = bl,
                ability_name = ab_name (raw_ability e),
                ability_id = ab_guid (raw_ability e),
                damage_type_id = ab_type (raw_ability e),
                formatted_time = format_elapsed_time secs,
                is_tank = flag_tank_player_id tank_ids (raw_targetID e),
                is_vuln_damage = flag_vuln_status vuln_ids bl,
                damage_type = replace_strict DAMAGE_TYPE ''unknown'' (ab_type (raw_ability e)),
                damage_category = None,
                is_tank_damage = None,
                ability_name_right = None,
                description = None,
                group_by_field = None\<rparr>))"

fun select_events ::
  "formatter \<Rightarrow> int \<Rightarrow> int list \<Rightarrow> int list \<Rightarrow> raw_event list
     \<Rightarrow> exn + damage_event list" where
  "select_events fmt st tk vu [] = Inr []"
| "select_events fmt st tk vu (e # es) =
     (case select_event fmt st tk vu e of
        Inl x \<Rightarrow> Inl x
      | Inr r \<Rightarrow>
          (case select_events fmt st tk vu es of Inl x \<Rightarrow> Inl x | Inr rs \<Rightarrow> Inr (r # rs)))"

text \<open>
  The left join on \<open>ability_id\<close> and the \<open>group_by_field\<close> column: a row without a
  match keeps nulls in the four joined columns.
\<close>

definition with_category :: "damage_event \<Rightarrow> category_row \<Rightarrow> damage_event" where
  "with_category r c =
     r\<lparr>damage_category := cat_damage_category c,
       is_tank_damage := Some (cat_is_tank_damage c),
       ability_name_right := cat_ability_name c,
       description := cat_description c\<rparr>"

definition join_left :: "category_row list \<Rightarrow> damage_event \<Rightarrow> damage_event list" where
  "join_left table r =
     (case filter (\<lambda>c. cat_ability_id c = ability_id r) table of
        [] \<Rightarrow> [r]
      | cs \<Rightarrow> map (with_category r) cs)"

definition with_group_by_field :: "damage_event \<Rightarrow> damage_event" where
  "with_group_by_field r =
     r\<lparr>group_by_field :=
         assign_group_by_field (damage_category r) (packetID r) (elapsed_seconds r)\<rparr>"

definition get_damage_events_table ::
  "formatter \<Rightarrow> int \<Rightarrow> int list \<Rightarrow> int list \<Rightarrow> category_row list \<Rightarrow> event_response
     \<Rightarrow> exn + damage_event list" where
  "get_damage_events_table format_elapsed_time start_timestamp tank_ids vuln_ids
       damage_category_table resp =
     (case select_events format_elapsed_time start_timestamp tank_ids vuln_ids
             (filter (\<lambda>e. raw_type e = ''damage'') (events resp)) of
        Inl x \<Rightarrow> Inl x
      | Inr rows \<Rightarrow>
          Inr (map with_group_by_field (concat (map (join_left damage_category_table) rows))))"

subsection \<open>The object\<close>

record incoming_damage =
  party_damage_ceiling :: int
  tank_damage_ceiling :: int
  start_timestamp :: int
  party_table :: "player list"
  tank_ids :: "int list"
  non_tank_ids :: "int list"
  vuln_ids :: "int list"
  damage_category_table :: "category_row list"
  damage_events_table :: "damage_event list"

text \<open>The constructor, from the response that \<open>get_incoming_damage\<close> fetched.\<close>

definition IncomingDamage ::
  "formatter \<Rightarrow> (int \<times> metadata) list \<Rightarrow> int \<Rightarrow> int \<Rightarrow> event_response
     \<Rightarrow> exn + incoming_damage" where
  "IncomingDamage format_elapsed_time damage_category_dict party_ceiling tank_ceiling resp =
     (case get_start_timestamp resp of
        Inl x \<Rightarrow> Inl x
      | Inr st \<Rightarrow>
          (let pt = get_party_table resp;
               (tk, ntk) = get_role_ids pt;
               vu = get_vuln_ids resp;
               ct = get_damage_category_table damage_category_dict
           in case get_damage_events_table format_elapsed_time st tk vu ct resp of
                Inl x \<Rightarrow> Inl x
              | Inr tbl \<Rightarrow>
                  Inr \<lparr>party_damage_ceiling = party_ceiling,
                       tank_damage_ceiling = tank_ceiling,
                       start_timestamp = st,
                       party_table = pt,
                       tank_ids = tk,
                       non_tank_ids = ntk,
                       vuln_ids = vu,
                       damage_category_table = ct,
                       damage_events_table = tbl\<rparr>))"

subsection \<open>Aggregation of the party profile\<close>

text \<open>
  \<open>group_by\<close> gathers the rows of equal key, each group in row order. The order of the
  groups is left open by polars; here it is the order of first appearance, and the sort
  that follows is the stable insertion sort of the list library.
\<close>

fun group_by :: "('a \<Rightarrow> 'k) \<Rightarrow> 'a list \<Rightarrow> ('k \<times> 'a list) list" where
  "group_by key [] = []"
| "group_by key (x # xs) =
     (key x, x # filter (\<lambda>y. key y = key x) xs)
       # group_by key (filter (\<lambda>y. key y \<noteq> key x) xs)"

text \<open>Median of the non-null values: the middle one, or the mean of the two middle ones.\<close>

definition median :: "rat list \<Rightarrow> rat option" where
  "median vs =
     (let s = sort vs; n = length s in
        if n = 0 then None
        else if odd n then Some (s ! (n div 2))
        else Some ((s ! (n div 2 - 1) + s ! (n div 2)) / 2))"

definition drop_nulls :: "'a option list \<Rightarrow> 'a list" where
  "drop_nulls vs = concat (map (\<lambda>v. case v of None \<Rightarrow> [] | Some a \<Rightarrow> [a]) vs)"

definition first :: "'a list \<Rightarrow> 'a option" where
  "first vs = (case vs of [] \<Rightarrow> None | v # _ \<Rightarrow> Some v)"

record profile_row =
  pr_group_by_field :: "rat option"
  pr_elapsed_seconds :: "rat option"
  pr_formatted_time :: "string option"
  pr_ability_name :: "string option"
  pr_unmitigatedAmount :: "int option"
  pr_description :: "string option"
  pr_damage_type :: "string option"
  pr_damage_type_id :: "int option"

definition agg :: "formatter \<Rightarrow> rat option \<times> damage_event list \<Rightarrow> profile_row" where
  "agg format_elapsed_time g =
     \<lparr>pr_group_by_field = fst g,
      pr_elapsed_seconds = median (map elapsed_seconds (snd g)),
      pr_formatted_time = map_option format_elapsed_time (median (map elapsed_seconds (snd g))),
      pr_ability_name = first (map ability_name (snd g)),
      pr_unmitigatedAmount =
        map_option cast_int (median (map of_int (drop_nulls (map unmitigatedAmount (snd g))))),
      pr_description = Option.bind (first (map description (snd g))) id,
      pr_damage_type = first (map damage_type (snd g)),
      pr_damage_type_id = first (map damage_type_id (snd g))\<rparr>"

definition aggregate_incoming_damage ::
  "formatter \<Rightarrow> damage_event list \<Rightarrow> profile_row list" where
  "aggregate_incoming_damage format_elapsed_time filtered_damage_events =
     sort_key pr_elapsed_seconds
       (map (agg format_elapsed_time) (group_by group_by_field filtered_damage_events))"

subsection \<open>The two profiles\<close>

definition party_filter :: "incoming_damage \<Rightarrow> damage_event \<Rightarrow> bool option" where
  "party_filter self r =
     k_and (k_and (k_and (k_and
       (k_not (Some (is_tank r)))
       (k_not (is_tank_damage r)))
       (k_not (Some (is_vuln_damage r))))
       (is_not_null (unmitigatedAmount r)))
       (k_less (unmitigatedAmount r) (party_damage_ceiling self))"

text \<open>The rows that reach the aggregation.\<close>

definition party_damage :: "incoming_damage \<Rightarrow> bool \<Rightarrow> damage_event list" where
  "party_damage self filter_uncategorized_damage =
     (let pd = df_filter (party_filter self) (damage_events_table self) in
        if filter_uncategorized_damage
        then df_filter (\<lambda>r. is_not_null (damage_category r)) pd
        else pd)"

definition get_incoming_damage_profile ::
  "formatter \<Rightarrow> incoming_damage \<Rightarrow> bool \<Rightarrow> profile_row list" where
  "get_incoming_damage_profile format_elapsed_time self filter_uncategorized_damage =
     aggregate_incoming_damage format_elapsed_time
       (party_damage self filter_uncategorized_damage)"

definition tank_filter :: "incoming_damage \<Rightarrow> damage_event \<Rightarrow> bool option" where
  "tank_filter self r =
     k_and (k_and (k_and
       (Some (is_tank r))
       (is_tank_damage r))
       (is_not_null (unmitigatedAmount r)))
       (k_less (unmitigatedAmount r) (tank_damage_ceiling self))"

text \<open>The rows of the tank profile before the final \<open>select\<close>.\<close>

definition tank_damage :: "incoming_damage \<Rightarrow> bool \<Rightarrow> bool \<Rightarrow> damage_event list" where
  "tank_damage self filter_uncategorized_events filter_vulns =
     (let td = df_filter (tank_filter self) (damage_events_table self) in
        if filter_vulns
        then df_filter (\<lambda>r. k_not (Some (is_vuln_damage r))) td
        else td)"

record tank_row =
  tr_elapsed_seconds :: rat
  tr_formatted_time :: string
  tr_ability_name :: string
  tr_unmitigatedAmount :: "int option"
  tr_targetID :: int
  tr_description :: "string option"
  tr_damage_type :: string
  tr_damage_type_id :: int

definition select_tank :: "damage_event \<Rightarrow> tank_row" where
  "select_tank r =
     \<lparr>tr_elapsed_seconds = elapsed_seconds r,
      tr_formatted_time = formatted_time r,
      tr_ability_name = ability_name r,
      tr_unmitigatedAmount = unmitigatedAmount r,
      tr_targetID = targetID r,
      tr_description = description r,
      tr_damage_type = damage_type r,
      tr_damage_type_id = damage_type_id r\<rparr>"

definition get_incoming_tank_damage_profile ::
  "incoming_damage \<Rightarrow> bool \<Rightarrow> bool \<Rightarrow> tank_row list" where
  "get_incoming_tank_damage_profile self filter_uncategorized_events filter_vulns =
     map select_tank (tank_damage self filter_uncategorized_events filter_vulns)"

subsection \<open>The GraphQL request\<close>

text \<open>
  The \<open>requests\<close> library is the environment of \<open>gql_query\<close>: \<open>post\<close> either raises
  or yields a response, whose \<open>json()\<close> either raises or yields the parsed body.
  \<open>raise_for_status\<close> raises on the status codes 400 to 599.
\<close>

record 'v json_payload =
  query :: string
  variables :: 'v
  operationName :: string

record 'j response =
  status_code :: nat
  json :: "exn + 'j"

definition BASE_URL :: string where
  \<open>BASE_URL = ''https://www.fflogs.com/api/v2/client''\<close>

definition headers :: "string \<Rightarrow> (string \<times> string) list" where
  "headers token =
     [(''Content-Type'', ''application/json''), (''Authorization'', ''Bearer '' @ token)]"

definition raise_for_status :: "'j response \<Rightarrow> exn + unit" where
  "raise_for_status r =
     (if 400 \<le> status_code r \<and> status_code r < 600 then Inl (HTTPError (status_code r))
      else Inr ())"

definition gql_query ::
  "((string \<times> string) list \<Rightarrow> string \<Rightarrow> 'v json_payload \<Rightarrow> exn + 'j response)
     \<Rightarrow> string \<Rightarrow> string \<Rightarrow> 'v \<Rightarrow> string \<Rightarrow> exn + 'j" where
  "gql_query post token q vars operation_name =
     (case post (headers token) BASE_URL
             \<lparr>query = q, variables = vars, operationName = operation_name\<rparr> of
        Inl e \<Rightarrow> Inl e
      | Inr r \<Rightarrow> (case raise_for_status r of Inl e \<Rightarrow> Inl e | Inr _ \<Rightarrow> json r))"

subsection \<open>The columns of the damage events table\<close>

text \<open>The same pipeline as \<open>get_damage_events_table\<close>, on column names only.\<close>

definition with_columns :: "string list \<Rightarrow> string list \<Rightarrow> string list" where
  "with_columns cols new = cols @ filter (\<lambda>c. c \<notin> set cols) new"

definition join_columns :: "string list \<Rightarrow> string list \<Rightarrow> string \<Rightarrow> string list" where
  "join_columns left right on =
     left @ map (\<lambda>c. if c \<in> set left then c @ ''_right'' else c) (filter (\<lambda>c. c \<noteq> on) right)"

definition damage_category_table_columns :: "string list" where
  "damage_category_table_columns =
     [''ability_id'', ''damage_category'', ''is_tank_damage'', ''ability_name'', ''description'']"

definition damage_events_table_columns :: "string list" where
  "damage_events_table_columns =
     with_columns
       (join_columns
          (with_columns
             (with_columns
                [''elapsed_seconds'', ''packetID'', ''hitType'', ''amount'',
                 ''unmitigatedAmount'', ''targetID'', ''buff_list'', ''ability_name'',
                 ''ability_id'', ''damage_type_id'']
                [''formatted_time'', ''is_tank'', ''is_vuln_damage'', ''damage_type''])
             [''is_tank'', ''is_vuln_damage''])
          damage_category_table_columns ''ability_id'')
       [''group_by_field'']"

subsection \<open>The static page generator\<close>

definition nl :: string where
  "nl = [CHR 0x0A]"

definition generate_html_header :: string where
  \<open>generate_html_header =
     ''<!DOCTYPE html>'' @ nl @
     ''<html lang="en">'' @ nl @
     ''<head>'' @ nl @
     ''    <meta charset="UTF-8">'' @ nl @
     ''    <meta name="viewport" content="width=device-width, initial-scale=1.0">'' @ nl @
     ''    <title>FFXIV Incoming Damage Timeline</title>'' @ nl @
     ''    <link href="https://cdn.jsdelivr.net/npm/bootstrap@5.3.0/dist/css/bootstrap.min.css" rel="stylesheet">'' @ nl @
     ''    <script src="https://cdn.plot.ly/plotly-3.3.0.min.js"></script>'' @ nl @
     ''    <style>'' @ nl @
     ''        body {'' @ nl @
     ''            background-color: #f8f9fa;'' @ nl @
     ''            font-family: -apple-system, BlinkMacSystemFont, 'Segoe UI', Roboto, 'Helvetica Neue', Arial, sans-serif;'' @ nl @
     ''        }'' @ nl @
     ''        .navbar {'' @ nl @
     ''            background: linear-gradient(135deg, #667eea 0%, #764ba2 100%);'' @ nl @
     ''        }'' @ nl @
     ''        .fight-section {'' @ nl @
     ''            background: white;'' @ nl @
     ''            border-radius: 8px;'' @ nl @
     ''            box-shadow: 0 2px 4px rgba(0,0,0,0.1);'' @ nl @
     ''            margin-bottom: 2rem;'' @ nl @
     ''            padding: 2rem;'' @ nl @
     ''        }'' @ nl @
     ''        .fight-title {'' @ nl @
     ''            color: #667eea;'' @ nl @
     ''            font-weight: 600;'' @ nl @
     ''            margin-bottom: 1.5rem;'' @ nl @
     ''            padding-bottom: 0.5rem;'' @ nl @
     ''            border-bottom: 2px solid #667eea;'' @ nl @
     ''        }'' @ nl @
     ''        .table-container {'' @ nl @
     ''            margin-bottom: 2rem;'' @ nl @
     ''            overflow-x: auto;'' @ nl @
     ''        }'' @ nl @
     ''        table {'' @ nl @
     ''            font-size: 0.9rem;'' @ nl @
     ''        }'' @ nl @
     ''        .table thead th {'' @ nl @
     ''            background-color: #667eea;'' @ nl @
     ''            color: white;'' @ nl @
     ''            border: none;'' @ nl @
     ''            font-weight: 500;'' @ nl @
     ''        }'' @ nl @
     ''        .table-striped tbody tr:nth-of-type(odd) {'' @ nl @
     ''            background-color: rgba(102, 126, 234, 0.05);'' @ nl @
     ''        }'' @ nl @
     ''        .plot-container {'' @ nl @
     ''            margin-bottom: 2rem;'' @ nl @
     ''        }'' @ nl @
     ''        .section-subtitle {'' @ nl @
     ''            color: #495057;'' @ nl @
     ''            font-weight: 500;'' @ nl @
     ''            margin-top: 1.5rem;'' @ nl @
     ''            margin-bottom: 1rem;'' @ nl @
     ''        }'' @ nl @
     ''        footer {'' @ nl @
     ''            margin-top: 3rem;'' @ nl @
     ''            padding: 2rem 0;'' @ nl @
     ''            text-align: center;'' @ nl @
     ''            color: #6c757d;'' @ nl @
     ''        }'' @ nl @
     ''    </style>'' @ nl @
     ''</head>'' @ nl @
     ''<body>'' @ nl @
     ''    <nav class="navbar navbar-dark mb-4">'' @ nl @
     ''        <div class="container-fluid">'' @ nl @
     ''            <span class="navbar-brand mb-0 h1">FFXIV Incoming Damage Timeline</span>'' @ nl @
     ''        </div>'' @ nl @
     ''    </nav>'' @ nl @
     ''    <div class="container">'' @ nl\<close>

definition generate_html_footer :: string where
  \<open>generate_html_footer =
     nl @
     ''    </div>'' @ nl @
     ''    <footer>'' @ nl @
     ''        <p>Generated with FFLogs API data</p>'' @ nl @
     ''    </footer>'' @ nl @
     ''    <script src="https://cdn.jsdelivr.net/npm/bootstrap@5.3.0/dist/js/bootstrap.bundle.min.js"></script>'' @ nl @
     ''</body>'' @ nl @
     ''</html>'' @ nl\<close>

record fight_data =
  report_id :: string
  fight_id :: int
  party_damage_dict :: "(int \<times> metadata) list"

definition generate_table_of_contents :: "(string \<times> fight_data) list \<Rightarrow> string" where
  \<open>generate_table_of_contents fights =
     nl @ ''    <div class="fight-section">'' @ nl @
     ''        <h2 class="fight-title">Quick Navigation</h2>'' @ nl @
     ''        <div class="list-group">'' @ nl @
     concat (map (\<lambda>(fight_name, _).
        ''            <a href="#'' @ lower fight_name
          @ ''" class="list-group-item list-group-item-action">'' @ fight_name @ ''</a>'' @ nl)
        fights) @
     ''        </div>'' @ nl @
     ''    </div>'' @ nl\<close>

text \<open>The section that stands for a fight whose generation raised.\<close>

definition error_section :: "string \<Rightarrow> string \<Rightarrow> string" where
  \<open>error_section fight_name msg =
     nl @ ''    <div class="fight-section" id="'' @ lower fight_name @ ''">'' @ nl @
     ''        <h2 class="fight-title">'' @ fight_name @ ''</h2>'' @ nl @
     ''        <div class="alert alert-danger" role="alert">'' @ nl @
     ''            Error generating data for this fight: '' @ msg @ nl @
     ''        </div>'' @ nl @
     ''    </div>'' @ nl\<close>

text \<open>
  What \<open>main\<close> acts on: the lines printed so far, the directories and the files.
  \<open>generate_fight_section\<close>, with its request and its plots, is a parameter \<open>gen\<close> of
  \<open>main\<close>: it yields the lines it printed and either the section or, as \<open>Inl\<close>, the
  message of the \<open>Exception\<close> it raised.
\<close>

record world =
  stdout :: "string list"
  dirs :: "string set"
  files :: "string \<Rightarrow> string option"

definition print :: "string \<Rightarrow> world \<Rightarrow> world" where
  "print line w = w\<lparr>stdout := stdout w @ [line]\<rparr>"

definition makedirs :: "string \<Rightarrow> world \<Rightarrow> world" where
  "makedirs d w = w\<lparr>dirs := insert d (dirs w)\<rparr>"

definition write_file :: "string \<Rightarrow> string \<Rightarrow> world \<Rightarrow> world" where
  "write_file path content w = w\<lparr>files := (files w)(path \<mapsto> content)\<rparr>"

type_synonym section_generator = "string \<Rightarrow> fight_data \<Rightarrow> string list \<times> (string + string)"

text \<open>One turn of the loop over the fights, on the pair of the world and \<open>html_content\<close>.\<close>

definition fight_step ::
  "section_generator \<Rightarrow> world \<times> string \<Rightarrow> string \<times> fight_data \<Rightarrow> world \<times> string" where
  "fight_step gen acc fight =
     (case acc of (w, html_content) \<Rightarrow>
      case fight of (fight_name, data) \<Rightarrow>
      case gen fight_name data of (printed, res) \<Rightarrow>
        (let w' = w\<lparr>stdout := stdout w @ printed\<rparr> in
         case res of
           Inr section_html \<Rightarrow> (w', html_content @ section_html)
         | Inl msg \<Rightarrow>
             (print (''Error processing '' @ fight_name @ '': '' @ msg) w',
              html_content @ error_section fight_name msg)))"

definition main :: "section_generator \<Rightarrow> (string \<times> fight_data) list \<Rightarrow> world \<Rightarrow> world" where
  "main gen logs w0 =
     (let w1 = print ''Generating static HTML page...'' w0;
          html_content = generate_html_header @ generate_table_of_contents logs;
          (w2, html_content) = foldl (fight_step gen) (w1, html_content) logs;
          html_content = html_content @ generate_html_footer;
          w3 = makedirs ''docs'' w2;
          output_file = ''docs/index.html'';
          w4 = write_file output_file html_content w3
      in print (''Static page generated: '' @ output_file) w4)"

subsection \<open>Constructing the object and calling a method\<close>




definition tank_damage_of ::
  "formatter \<Rightarrow> (int \<times> metadata) list \<Rightarrow> int \<Rightarrow> int \<Rightarrow> event_response \<Rightarrow> bool \<Rightarrow> bool
     \<Rightarrow> exn + damage_event list" where
  "tank_damage_of fmt d pc tc resp fu fv =
     (case IncomingDamage fmt d pc tc resp of
        Inl x \<Rightarrow> Inl x
      | Inr self \<Rightarrow> Inr (tank_damage self fu fv))"

definition tank_profile_of ::
  "formatter \<Rightarrow> (int \<times> metadata) list \<Rightarrow> int \<Rightarrow> int \<Rightarrow> event_response \<Rightarrow> bool \<Rightarrow> bool
     \<Rightarrow> exn + tank_row list" where
  "tank_profile_of fmt d pc tc resp fu fv =
     (case IncomingDamage fmt d pc tc resp of
        Inl x \<Rightarrow> Inl x
      | Inr self \<Rightarrow> Inr (get_incoming_tank_damage_profile self fu fv))"

subsection \<open>A small fight, for concrete runs\<close>

definition example_event ::
  "string \<Rightarrow> int \<Rightarrow> int option \<Rightarrow> int \<Rightarrow> int \<Rightarrow> int option \<Rightarrow> string option \<Rightarrow> raw_event" where
  "example_event ty t pid target guid unmit b =
     \<lparr>raw_type = ty, raw_timestamp = t, raw_packetID = pid, raw_hitType = Some 1,
      raw_amount = unmit, raw_unmitigatedAmount = unmit, raw_targetID = target,
      raw_buffs = b,
      raw_ability = \<lparr>ab_name = ''Ability'', ab_guid = guid, ab_type = 1024\<rparr>\<rparr>"

text \<open>
  Ability 42 is party damage, 43 a tank buster, 44 an old-format entry; ability 77 is
  not in the dictionary.
\<close>

definition example_dict :: "(int \<times> metadata) list" where
  "example_dict =
     [(42, MetaDict (Some ''party'') (Some False) (Some ''Raidwide'') (Some ''Heavy'')),
      (43, MetaDict (Some ''tank'') (Some True) (Some ''Buster'') None),
      (44, MetaValue (Some ''spread''))]"

text \<open>
  Player 1 is a tank; aura 500 is Vulnerability Up. The limit break update at 1000 ms
  starts the fight.
\<close>

definition example_response :: event_response where
  "example_response =
     \<lparr>playerDetails =
        [(''tanks'', [\<lparr>pl_name = ''T'', pl_id = 1, pl_icon = ''Paladin''\<rparr>]),
         (''healers'', [\<lparr>pl_name = ''H'', pl_id = 2, pl_icon = ''WhiteMage''\<rparr>]),
         (''dps'', [\<lparr>pl_name = ''D'', pl_id = 3, pl_icon = ''Samurai''\<rparr>])],
      buffTable = [\<lparr>au_name = ''Vulnerability Up'', au_guid = 500\<rparr>,
                   \<lparr>au_name = ''Bleeding'', au_guid = 600\<rparr>],
      startingEvent = Some [example_event ''limitbreakupdate'' 1000 None 0 0 None None],
      events =
        [example_event ''calculateddamage'' 2900 (Some 10) 2 42 (Some 50000) None,
         example_event ''damage'' 9000 (Some 13) 2 44 (Some 30000) None,
         example_event ''damage'' 3000 (Some 10) 2 42 (Some 50000) None,
         example_event ''damage'' 3050 (Some 10) 3 42 (Some 52000) (Some ''600.''),
         example_event ''damage'' 5000 (Some 11) 1 43 (Some 200000) (Some ''600.500.''),
         example_event ''damage'' 7000 (Some 12) 3 77 (Some 1000) None,
         example_event ''damage'' 9000 (Some 14) 3 44 (Some 31001) None]\<rparr>"

text \<open>The same fight without a limit break update in its first events.\<close>

definition example_response_no_lb :: event_response where
  "example_response_no_lb = example_response\<lparr>startingEvent := Some []\<rparr>"

text \<open>The rows that the small fight gives for the tank buster and for ability 77.\<close>

definition example_buster_row :: damage_event where
  "example_buster_row =
     \<lparr>elapsed_seconds = 4, packetID = Some 11, hitType = Some 1,
      amount = Some 200000, unmitigatedAmount = Some 200000,
      targetID = 1, buff_list = Some [600, 500],
      ability_name = ''Ability'', ability_id = 43,
      damage_type_id = 1024, formatted_time = ''00:04.000'',
      is_tank = True, is_vuln_damage = True,
      damage_type = ''Magical'', damage_category = Some ''tank'',
      is_tank_damage = Some True,
      ability_name_right = Some ''Buster'', description = None,
      group_by_field = Some 4\<rparr>"

definition example_uncategorized_row :: damage_event where
  "example_uncategorized_row =
     \<lparr>elapsed_seconds = 6, packetID = Some 12, hitType = Some 1,
      amount = Some 1000, unmitigatedAmount = Some 1000,
      targetID = 3, buff_list = None, ability_name = ''Ability'',
      ability_id = 77, damage_type_id = 1024,
      formatted_time = ''00:06.000'', is_tank = False,
      is_vuln_damage = False, damage_type = ''Magical'',
      damage_category = None, is_tank_damage = None,
      ability_name_right = None, description = None,
      group_by_field = Some 6\<rparr>"

text \<open>The table and the object that the constructor builds for the small fight.\<close>

definition example_table :: "damage_event list" where
  "example_table =
     [\<lparr>elapsed_seconds = 8, packetID = Some 13, hitType = Some 1,
       amount = Some 30000, unmitigatedAmount = Some 30000, targetID = 2,
       buff_list = None, ability_name = ''Ability'', ability_id = 44,
       damage_type_id = 1024, formatted_time = ''00:08.000'',
       is_tank = False, is_vuln_damage = False, damage_type = ''Magical'',
       damage_category = Some ''spread'', is_tank_damage = Some False,
       ability_name_right = None, description = None,
       group_by_field = Some 8\<rparr>,
      \<lparr>elapsed_seconds = 2, packetID = Some 10, hitType = Some 1,
       amount = Some 50000, unmitigatedAmount = Some 50000, targetID = 2,
       buff_list = None, ability_name = ''Ability'', ability_id = 42,
       damage_type_id = 1024, formatted_time = ''00:02.000'',
       is_tank = False, is_vuln_damage = False, damage_type = ''Magical'',
       damage_category = Some ''party'', is_tank_damage = Some False,
       ability_name_right = Some ''Raidwide'',
       description = Some ''Heavy'', group_by_field = Some 10\<rparr>,
      \<lparr>elapsed_seconds = 41 / 20, packetID = Some 10, hitType = Some 1,
       amount = Some 52000, unmitigatedAmount = Some 52000, targetID = 3,
       buff_list = Some [600], ability_name = ''Ability'', ability_id = 42,
       damage_type_id = 1024, formatted_time = ''00:02.050'',
       is_tank = False, is_vuln_damage = False, damage_type = ''Magical'',
       damage_category = Some ''party'', is_tank_damage = Some False,
       ability_name_right = Some ''Raidwide'',
       description = Some ''Heavy'', group_by_field = Some 10\<rparr>,
      example_buster_row,
      example_uncategorized_row,
      \<lparr>elapsed_seconds = 8, packetID = Some 14, hitType = Some 1,
       amount = Some 31001, unmitigatedAmount = Some 31001, targetID = 3,
       buff_list = None, ability_name = ''Ability'', ability_id = 44,
       damage_type_id = 1024, formatted_time = ''00:08.000'',
       is_tank = False, is_vuln_damage = False, damage_type = ''Magical'',
       damage_category = Some ''spread'', is_tank_damage = Some False,
       ability_name_right = None, description = None,
       group_by_field = Some 8\<rparr>]"

definition example_self :: incoming_damage where
  "example_self =
     \<lparr>party_damage_ceiling = 300000, tank_damage_ceiling = 600000,
      start_timestamp = 1000,
      party_table =
        [\<lparr>pl_name = ''T'', pl_id = 1, pl_icon = ''Paladin''\<rparr>,
         \<lparr>pl_name = ''H'', pl_id = 2, pl_icon = ''WhiteMage''\<rparr>,
         \<lparr>pl_name = ''D'', pl_id = 3, pl_icon = ''Samurai''\<rparr>],
      tank_ids = [1], non_tank_ids = [2, 3], vuln_ids = [500],
      damage_category_table =
        [\<lparr>cat_ability_id = 42, cat_damage_category = Some ''party'',
          cat_is_tank_damage = False, cat_ability_name = Some ''Raidwide'',
          cat_description = Some ''Heavy''\<rparr>,
         \<lparr>cat_ability_id = 43, cat_damage_category = Some ''tank'',
          cat_is_tank_damage = True, cat_ability_name = Some ''Buster'',
          cat_description = None\<rparr>,
         \<lparr>cat_ability_id = 44, cat_damage_category = Some ''spread'',
          cat_is_tank_damage = False, cat_ability_name = None,
          cat_description = None\<rparr>],
      damage_events_table = example_table\<rparr>"

text \<open>The row that the party profile of the small fight has for packet 10.\<close>

definition example_party_row :: profile_row where
  "example_party_row =
     \<lparr>pr_group_by_field = Some 10, pr_elapsed_seconds = Some (81 / 40),
      pr_formatted_time = Some ''00:02.025'',
      pr_ability_name = Some ''Ability'', pr_unmitigatedAmount = Some 51000,
      pr_description = Some ''Heavy'', pr_damage_type = Some ''Magical'',
      pr_damage_type_id = Some 1024\<rparr>"

subsection \<open>Small runs of the request and of the page generator\<close>

text \<open>A parsed JSON document, as \<open>response.json()\<close> returns it.\<close>

datatype json_value =
    JNull
  | JBool bool
  | JNumber int
  | JString string
  | JArray "json_value list"
  | JObject "(string \<times> json_value) list"

text \<open>
  Three outcomes of the POST: a page of HTML with status 200, whose body is not JSON; an
  error status; and a JSON answer.
\<close>

definition example_html_response :: "json_value response" where
  "example_html_response = \<lparr>status_code = 200, json = Inl JSONDecodeError\<rparr>"

definition example_error_response :: "json_value response" where
  "example_error_response =
     \<lparr>status_code = 500, json = Inr (JObject [(''error'', JString ''Internal'')])\<rparr>"

definition example_json_response :: "json_value response" where
  "example_json_response = \<lparr>status_code = 200, json = Inr (JObject [(''data'', JNull)])\<rparr>"

definition example_post ::
  "json_value response \<Rightarrow> (string \<times> string) list \<Rightarrow> string \<Rightarrow> unit json_payload
     \<Rightarrow> exn + json_value response" where
  "example_post r hs url payload = Inr r"

definition example_post_fails ::
  "(string \<times> string) list \<Rightarrow> string \<Rightarrow> unit json_payload \<Rightarrow> exn + json_value response" where
  "example_post_fails hs url payload = Inl ConnectionError"

text \<open>Two fights; generating the section of the first one raises.\<close>

definition example_logs :: "(string \<times> fight_data) list" where
  "example_logs =
     [(''M9N'', \<lparr>report_id = ''HFK9wckdY1jCMZ27'', fight_id = 41, party_damage_dict = example_dict\<rparr>),
      (''M10N'', \<lparr>report_id = ''r6VFC3gRb4WzaDmw'', fight_id = 65, party_damage_dict = example_dict\<rparr>)]"

definition example_gen :: section_generator where
  "example_gen fight_name data =
     (if fight_name = ''M9N''
      then ([''Processing M9N...''], Inl ''401 Client Error'')
      else ([''Processing '' @ fight_name @ ''...''], Inr (''<div>'' @ fight_name @ ''</div>'')))"

definition example_world :: world where
  "example_world = \<lparr>stdout = [], dirs = {}, files = Map.empty\<rparr>"






section \<open>Properties\<close>

subsection \<open>Where the columns of a table row come from\<close>

lemma select_event_fields:
  assumes "select_event fmt st tk vu e = Inr r"
  shows "elapsed_seconds r = of_int (raw_timestamp e - st) / 1000"
    and "make_buff_list_col (raw_buffs e) = Inr (buff_list r)"
    and "is_vuln_damage r = flag_vuln_status vu (buff_list r)"
    and "is_tank r = (targetID r \<in> set tk)"
    and "targetID r = raw_targetID e"
    and "unmitigatedAmount r = raw_unmitigatedAmount e"
    and "packetID r = raw_packetID e"
    and "ability_id r = ab_guid (raw_ability e)"
    and "formatted_time r = fmt (elapsed_seconds r)"
proof -
  obtain bl where bl: "make_buff_list_col (raw_buffs e) = Inr bl"
    using assms by (cases "make_buff_list_col (raw_buffs e)") (simp_all add: select_event_def)
  have r: "r = \<lparr>elapsed_seconds = of_int (raw_timestamp e - st) / 1000,
                packetID = raw_packetID e,
                hitType = raw_hitType e,
                amount = raw_amount e,
                unmitigatedAmount = raw_unmitigatedAmount e,
                targetID = raw_targetID e,
                buff_list = bl,
                ability_name = ab_name (raw_ability e),
                ability_id = ab_guid (raw_ability e),
                damage_type_id = ab_type (raw_ability e),
                formatted_time = fmt (of_int (raw_timestamp e - st) / 1000),
                is_tank = flag_tank_player_id tk (raw_targetID e),
                is_vuln_damage = flag_vuln_status vu bl,
                damage_type = replace_strict DAMAGE_TYPE ''unknown'' (ab_type (raw_ability e)),
                damage_category = None,
                is_tank_damage = None,
                ability_name_right = None,
                description = None,
                group_by_field = None\<rparr>"
    using assms bl unfolding select_event_def Let_def by simp
  show "elapsed_seconds r = of_int (raw_timestamp e - st) / 1000" unfolding r by simp
  show "make_buff_list_col (raw_buffs e) = Inr (buff_list r)" unfolding r using bl by simp
  show "is_vuln_damage r = flag_vuln_status vu (buff_list r)" unfolding r by simp
  show "is_tank r = (targetID r \<in> set tk)" unfolding r by (simp add: flag_tank_player_id_def)
  show "targetID r = raw_targetID e" unfolding r by simp
  show "unmitigatedAmount r = raw_unmitigatedAmount e" unfolding r by simp
  show "packetID r = raw_packetID e" unfolding r by simp
  show "ability_id r = ab_guid (raw_ability e)" unfolding r by simp
  show "formatted_time r = fmt (elapsed_seconds r)" unfolding r by simp
qed

lemma select_events_rows:
  "select_events fmt st tk vu es = Inr rows \<Longrightarrow> r \<in> set rows
     \<Longrightarrow> \<exists>e \<in> set es. select_event fmt st tk vu e = Inr r"
  by (induction es arbitrary: rows) (auto split: sum.splits)

lemma join_left_fields:
  assumes "r' \<in> set (join_left ct r)"
  shows "elapsed_seconds r' = elapsed_seconds r" "buff_list r' = buff_list r"
    "is_vuln_damage r' = is_vuln_damage r" "is_tank r' = is_tank r"
    "targetID r' = targetID r" "unmitigatedAmount r' = unmitigatedAmount r"
    "packetID r' = packetID r" "ability_id r' = ability_id r" "formatted_time r' = formatted_time r"
  using assms
  by (auto simp: join_left_def with_category_def split: list.splits)


lemma with_group_by_field_fields:
  "elapsed_seconds (with_group_by_field r) = elapsed_seconds r"
  "buff_list (with_group_by_field r) = buff_list r"
  "is_vuln_damage (with_group_by_field r) = is_vuln_damage r"
  "is_tank (with_group_by_field r) = is_tank r"
  "targetID (with_group_by_field r) = targetID r"
  "unmitigatedAmount (with_group_by_field r) = unmitigatedAmount r"
  "packetID (with_group_by_field r) = packetID r"
  "ability_id (with_group_by_field r) = ability_id r"
  "formatted_time (with_group_by_field r) = formatted_time r"
  "damage_category (with_group_by_field r) = damage_category r"
  "is_tank_damage (with_group_by_field r) = is_tank_damage r"
  "group_by_field (with_group_by_field r) =
     assign_group_by_field (damage_category r) (packetID r) (elapsed_seconds r)"
  by (simp_all add: with_group_by_field_def)

lemma table_row_origin:
  assumes "get_damage_events_table fmt st tk vu ct resp = Inr tbl" and "r \<in> set tbl"
  shows "\<exists>e r0 r1. e \<in> set (events resp) \<and> raw_type e = ''damage''
           \<and> select_event fmt st tk vu e = Inr r0 \<and> r1 \<in> set (join_left ct r0)
           \<and> r = with_group_by_field r1"
proof -
  obtain rows where rows:
    "select_events fmt st tk vu (filter (\<lambda>e. raw_type e = ''damage'') (events resp)) = Inr rows"
    and tbl: "tbl = map with_group_by_field (concat (map (join_left ct) rows))"
    using assms(1) unfolding get_damage_events_table_def by (auto split: sum.splits)
  from assms(2) tbl obtain r0 r1 where r0: "r0 \<in> set rows" and r1: "r1 \<in> set (join_left ct r0)"
    and r: "r = with_group_by_field r1"
    by auto
  from select_events_rows [OF rows r0]
  obtain e where "e \<in> set (filter (\<lambda>e. raw_type e = ''damage'') (events resp))"
    and "select_event fmt st tk vu e = Inr r0"
    by blast
  with r1 r show ?thesis by auto
qed

lemma table_row_facts:
  assumes "get_damage_events_table fmt st tk vu ct resp = Inr tbl" and "r \<in> set tbl"
  shows "\<exists>e. e \<in> set (events resp) \<and> raw_type e = ''damage''
           \<and> elapsed_seconds r = of_int (raw_timestamp e - st) / 1000
           \<and> make_buff_list_col (raw_buffs e) = Inr (buff_list r)
           \<and> targetID r = raw_targetID e
           \<and> unmitigatedAmount r = raw_unmitigatedAmount e
           \<and> packetID r = raw_packetID e"
    and "is_vuln_damage r = flag_vuln_status vu (buff_list r)"
    and "is_tank r = (targetID r \<in> set tk)"
    and "group_by_field r =
           assign_group_by_field (damage_category r) (packetID r) (elapsed_seconds r)"
proof -
  from table_row_origin [OF assms] obtain e r0 r1 where
    e: "e \<in> set (events resp)" "raw_type e = ''damage''"
    and r0: "select_event fmt st tk vu e = Inr r0"
    and r1: "r1 \<in> set (join_left ct r0)"
    and r: "r = with_group_by_field r1"
    by blast
  note s = select_event_fields [OF r0]
  note j = join_left_fields [OF r1]
  note g = with_group_by_field_fields [of r1]
  show "\<exists>e. e \<in> set (events resp) \<and> raw_type e = ''damage''
           \<and> elapsed_seconds r = of_int (raw_timestamp e - st) / 1000
           \<and> make_buff_list_col (raw_buffs e) = Inr (buff_list r)
           \<and> targetID r = raw_targetID e
           \<and> unmitigatedAmount r = raw_unmitigatedAmount e
           \<and> packetID r = raw_packetID e"
    using e s(1,2,5,6,7) j(1,2,5,6,7) g(1,2,5,6,7) unfolding r by metis
  show "is_vuln_damage r = flag_vuln_status vu (buff_list r)"
    unfolding r using s(3) j(2,3) g(2,3) by simp
  show "is_tank r = (targetID r \<in> set tk)"
    unfolding r using s(4) j(4,5) g(4,5) by simp
  show "group_by_field r =
           assign_group_by_field (damage_category r) (packetID r) (elapsed_seconds r)"
    unfolding r using g by simp
qed

lemma k_and_True: "k_and a b = Some True \<longleftrightarrow> a = Some True \<and> b = Some True"
  by (auto simp: k_and_def)

lemma k_not_True: "k_not a = Some True \<longleftrightarrow> a = Some False"
  by (cases a) (auto simp: k_not_def)

lemma k_less_True: "k_less a c = Some True \<longleftrightarrow> (\<exists>v. a = Some v \<and> v < c)"
  by (cases a) (auto simp: k_less_def)

lemma party_filter_True:
  "party_filter self r = Some True \<longleftrightarrow>
     \<not> is_tank r \<and> is_tank_damage r = Some False \<and> \<not> is_vuln_damage r
     \<and> (\<exists>v. unmitigatedAmount r = Some v \<and> v < party_damage_ceiling self)"
  by (auto simp: party_filter_def k_and_True k_not_True k_less_True is_not_null_def)

lemma party_damage_iff:
  "r \<in> set (party_damage self fu) \<longleftrightarrow>
     r \<in> set (damage_events_table self)
     \<and> \<not> is_tank r \<and> is_tank_damage r = Some False \<and> \<not> is_vuln_damage r
     \<and> (\<exists>v. unmitigatedAmount r = Some v \<and> v < party_damage_ceiling self)
     \<and> (fu \<longrightarrow> damage_category r \<noteq> None)"
  by (auto simp: party_damage_def Let_def df_filter_def party_filter_True is_not_null_def)

lemma tank_filter_True:
  "tank_filter self r = Some True \<longleftrightarrow>
     is_tank r \<and> is_tank_damage r = Some True
     \<and> (\<exists>v. unmitigatedAmount r = Some v \<and> v < tank_damage_ceiling self)"
  by (auto simp: tank_filter_def k_and_True k_less_True is_not_null_def)

lemma tank_damage_eq:
  "tank_damage self fu fv =
     filter (\<lambda>r. is_tank r \<and> is_tank_damage r = Some True
                 \<and> (\<exists>v. unmitigatedAmount r = Some v \<and> v < tank_damage_ceiling self)
                 \<and> (fv \<longrightarrow> \<not> is_vuln_damage r))
       (damage_events_table self)"
  by (auto simp: tank_damage_def Let_def df_filter_def tank_filter_True k_not_True
           intro!: filter_cong)


lemma constructor_facts:
  assumes "IncomingDamage fmt d pc tc resp = Inr self"
  shows "get_start_timestamp resp = Inr (start_timestamp self)"
    and "get_damage_events_table fmt (start_timestamp self) (tank_ids self) (vuln_ids self)
           (damage_category_table self) resp = Inr (damage_events_table self)"
    and "tank_ids self = fst (get_role_ids (get_party_table resp))"
    and "vuln_ids self = get_vuln_ids resp"
    and "damage_category_table self = get_damage_category_table d"
    and "party_damage_ceiling self = pc"
    and "tank_damage_ceiling self = tc"
  using assms
  by (auto simp: IncomingDamage_def Let_def split: sum.splits prod.splits)

lemma flag_vuln_status_iff:
  "flag_vuln_status vu bl \<longleftrightarrow> (\<exists>l b. bl = Some l \<and> b \<in> set l \<and> b \<in> set vu)"
  by (cases bl) (auto simp: flag_vuln_status_def fill_null_def has_vuln_def list_ex_iff)

subsection \<open>Events without buffs\<close>

text \<open>
  C10: a damage event whose \<open>buffs\<close> field is absent has a null buff list, and
  \<open>flag_vuln_status\<close> flags it as not vulnerability damage: \<open>is_vuln_damage\<close> is false,
  so the vulnerability conjunct of the party filter is true for it.
\<close>

theorem null_buffs_not_vuln_damage:
  assumes "IncomingDamage fmt d pc tc resp = Inr self"
    and "r \<in> set (damage_events_table self)"
    and "buff_list r = None"
  shows "make_buff_list_col None = Inr None
         \<and> flag_vuln_status (vuln_ids self) None = False
         \<and> is_vuln_damage r = False
         \<and> k_not (Some (is_vuln_damage r)) = Some True"
proof -
  have "is_vuln_damage r = flag_vuln_status (vuln_ids self) (buff_list r)"
    using table_row_facts(2) [OF constructor_facts(2) [OF assms(1)] assms(2)] .
  then show ?thesis
    using assms(3) by (simp add: make_buff_list_col_def flag_vuln_status_iff k_not_def)
qed

subsection \<open>The small fight, evaluated\<close>

lemma example_constructor:
  "IncomingDamage format_exact example_dict 300000 600000 example_response = Inr example_self"
  by code_simp

lemma example_party_damage:
  "party_damage example_self False = party_damage example_self True"
  "example_uncategorized_row \<notin> set (party_damage example_self False)"
  by code_simp+

theorem null_buffs_not_vuln_damage_witness:
  "IncomingDamage format_exact example_dict 300000 600000 example_response = Inr example_self
   \<and> example_uncategorized_row \<in> set (damage_events_table example_self)
   \<and> buff_list example_uncategorized_row = None
   \<and> make_buff_list_col None = Inr None
   \<and> flag_vuln_status (vuln_ids example_self) None = False
   \<and> is_vuln_damage example_uncategorized_row = False
   \<and> k_not (Some (is_vuln_damage example_uncategorized_row)) = Some True"
proof -
  have a: "example_uncategorized_row \<in> set (damage_events_table example_self)"
    by (simp add: example_self_def example_table_def)
  have b: "buff_list example_uncategorized_row = None"
    by (simp add: example_uncategorized_row_def)
  show ?thesis
    using null_buffs_not_vuln_damage [OF example_constructor a b] example_constructor a b
    by blast
qed

lemma example_rows_in_table:
  "example_uncategorized_row \<in> set (damage_events_table example_self)"
  "example_buster_row \<in> set (damage_events_table example_self)"
  by (simp_all add: example_self_def example_table_def)

subsection \<open>Which events reach the party profile\<close>

text \<open>
  C1: an event is aggregated into the party profile exactly when its target is not a
  tank, its ability is not flagged as tank damage, it is not vulnerability damage, its
  \<open>unmitigatedAmount\<close> is non-null and below \<open>party_damage_ceiling\<close>, and (by default) its
  \<open>damage_category\<close> is non-null. Lemma \<open>party_damage_iff\<close> is what the filter does: it
  asks for \<open>is_tank_damage\<close> to be false, which a null flag is not. In the small fight the
  event of ability 77, which the dictionary does not mention, meets every condition of
  the claim for \<open>filter_uncategorized_damage = False\<close> and still does not reach the
  profile, which is the same for both values of the argument.
\<close>

theorem uncategorized_event_dropped:
  "IncomingDamage format_exact example_dict 300000 600000 example_response = Inr example_self
   \<and> example_uncategorized_row \<in> set (damage_events_table example_self)
   \<and> \<not> is_tank example_uncategorized_row
   \<and> is_tank_damage example_uncategorized_row \<noteq> Some True
   \<and> \<not> is_vuln_damage example_uncategorized_row
   \<and> unmitigatedAmount example_uncategorized_row = Some 1000
   \<and> 1000 < party_damage_ceiling example_self
   \<and> example_uncategorized_row \<notin> set (party_damage example_self False)
   \<and> get_incoming_damage_profile format_exact example_self False = get_incoming_damage_profile format_exact example_self True"
proof -
  have "\<not> is_tank example_uncategorized_row"
    "is_tank_damage example_uncategorized_row \<noteq> Some True"
    "\<not> is_vuln_damage example_uncategorized_row"
    "unmitigatedAmount example_uncategorized_row = Some 1000"
    by (simp_all add: example_uncategorized_row_def)
  moreover have "1000 < party_damage_ceiling example_self"
    by (simp add: example_self_def)
  moreover have "get_incoming_damage_profile format_exact example_self False
      = get_incoming_damage_profile format_exact example_self True"
    using example_party_damage(1) by (simp add: get_incoming_damage_profile_def)
  ultimately show ?thesis
    using example_constructor example_rows_in_table(1) example_party_damage(2) by blast
qed

subsection \<open>Vulnerability damage\<close>

text \<open>
  C2, as stated, fails for the tank profile: with the default arguments
  (\<open>filter_vulns = False\<close>) the small fight's tank buster, whose buff list holds the
  Vulnerability Up id 500, is a row of \<open>get_incoming_tank_damage_profile\<close>.
\<close>

theorem vuln_damage_in_default_tank_profile:
  "tank_damage_of format_exact example_dict 300000 600000 example_response True False = Inr [example_buster_row]
   \<and> is_vuln_damage example_buster_row
   \<and> buff_list example_buster_row = Some [600, 500]
   \<and> get_vuln_ids example_response = [500]
   \<and> tank_profile_of format_exact example_dict 300000 600000 example_response True False
       = Inr [select_tank example_buster_row]"
proof -
  have t: "tank_damage example_self True False = [example_buster_row]"
    by code_simp
  have "is_vuln_damage example_buster_row" "buff_list example_buster_row = Some [600, 500]"
    by (simp_all add: example_buster_row_def)
  moreover have "get_vuln_ids example_response = [500]"
    by code_simp
  ultimately show ?thesis
    using t example_constructor
    by (simp add: tank_damage_of_def tank_profile_of_def get_incoming_tank_damage_profile_def)
qed

text \<open>
  C2, amended: an event whose buff list contains a Vulnerability Up id is flagged as
  vulnerability damage; it never reaches the party profile, and it is absent from the
  tank profile when \<open>filter_vulns\<close> is true. With \<open>filter_vulns = False\<close> the tank
  profile keeps it whenever it passes the tank filter.
\<close>

theorem vuln_damage_excluded:
  assumes "IncomingDamage fmt d pc tc resp = Inr self"
    and "r \<in> set (damage_events_table self)"
    and "buff_list r = Some l"
    and "b \<in> set l"
    and "b \<in> set (get_vuln_ids resp)"
  shows "is_vuln_damage r
         \<and> r \<notin> set (party_damage self fu)
         \<and> r \<notin> set (tank_damage self fe True)
         \<and> (r \<in> set (tank_damage self fe False) \<longleftrightarrow>
              is_tank r \<and> is_tank_damage r = Some True
              \<and> (\<exists>v. unmitigatedAmount r = Some v \<and> v < tank_damage_ceiling self))"
proof -
  have "is_vuln_damage r = flag_vuln_status (vuln_ids self) (buff_list r)"
    using table_row_facts(2) [OF constructor_facts(2) [OF assms(1)] assms(2)] .
  then have v: "is_vuln_damage r"
    using assms(3-5) constructor_facts(4) [OF assms(1)] by (auto simp: flag_vuln_status_iff)
  show ?thesis
    using v assms(2) by (simp add: party_damage_iff tank_damage_eq)
qed

theorem vuln_damage_excluded_witness:
  "IncomingDamage format_exact example_dict 300000 600000 example_response = Inr example_self
   \<and> example_buster_row \<in> set (damage_events_table example_self)
   \<and> buff_list example_buster_row = Some [600, 500]
   \<and> (500::int) \<in> set [600, 500]
   \<and> 500 \<in> set (get_vuln_ids example_response)
   \<and> is_vuln_damage example_buster_row
   \<and> example_buster_row \<notin> set (party_damage example_self True)
   \<and> example_buster_row \<notin> set (tank_damage example_self True True)
   \<and> example_buster_row \<in> set (tank_damage example_self True False)"
proof -
  have b: "buff_list example_buster_row = Some [600, 500]"
    by (simp add: example_buster_row_def)
  have m: "(500::int) \<in> set [600, 500]" by simp
  have g: "500 \<in> set (get_vuln_ids example_response)" by code_simp
  have t: "is_tank example_buster_row \<and> is_tank_damage example_buster_row = Some True
     \<and> (\<exists>v. unmitigatedAmount example_buster_row = Some v \<and> v < tank_damage_ceiling example_self)"
    by (simp add: example_buster_row_def example_self_def)
  show ?thesis
    using vuln_damage_excluded [OF example_constructor example_rows_in_table(2) b m g,
        of True True]
      example_constructor example_rows_in_table(2) b m g t
    by blast
qed

subsection \<open>The tank profile\<close>




subsection \<open>Grouping\<close>

lemma group_by_keys: "fst ` set (group_by key xs) = key ` set xs"
proof (induction key xs rule: group_by.induct)
  case (1 key)
  then show ?case by simp
next
  case (2 key x xs)
  then show ?case by auto
qed

lemma group_by_distinct: "distinct (map fst (group_by key xs))"
proof (induction key xs rule: group_by.induct)
  case (1 key)
  then show ?case by simp
next
  case (2 key x xs)
  have "key x \<notin> fst ` set (group_by key (filter (\<lambda>y. key y \<noteq> key x) xs))"
    unfolding group_by_keys by auto
  with 2 show ?case by simp
qed

lemma group_by_group:
  "(k, g) \<in> set (group_by key xs) \<Longrightarrow> g = filter (\<lambda>y. key y = k) xs \<and> g \<noteq> []"
proof (induction key xs rule: group_by.induct)
  case (1 key)
  then show ?case by simp
next
  case (2 key x xs)
  show ?case
  proof (cases "k = key x \<and> g = x # filter (\<lambda>y. key y = key x) xs")
    case True
    then show ?thesis by auto
  next
    case False
    with 2(2) have in_rest: "(k, g) \<in> set (group_by key (filter (\<lambda>y. key y \<noteq> key x) xs))"
      by auto
    then have "k \<in> fst ` set (group_by key (filter (\<lambda>y. key y \<noteq> key x) xs))"
      by force
    then have ne: "k \<noteq> key x"
      unfolding group_by_keys by auto
    from 2(1) [OF in_rest]
    have g: "g = filter (\<lambda>y. key y = k) (filter (\<lambda>y. key y \<noteq> key x) xs)" and "g \<noteq> []"
      by blast+
    have "filter (\<lambda>y. key y = k) (filter (\<lambda>y. key y \<noteq> key x) xs) = filter (\<lambda>y. key y = k) xs"
      using ne by (auto simp: filter_filter intro!: filter_cong)
    with g have "g = filter (\<lambda>y. key y = k) xs" by (simp only:)
    moreover have "filter (\<lambda>y. key y = k) (x # xs) = filter (\<lambda>y. key y = k) xs"
      using ne by simp
    ultimately show ?thesis using \<open>g \<noteq> []\<close> by (simp only:) simp
  qed
qed

lemma median_Some:
  assumes "vs \<noteq> []"
  shows "median vs \<noteq> None"
proof -
  have "length (sort vs) \<noteq> 0" using assms by simp
  then show ?thesis
    unfolding median_def Let_def by (cases "odd (length (sort vs))") simp_all
qed

lemma drop_nulls_all_Some:
  "\<forall>x \<in> set xs. f x \<noteq> None \<Longrightarrow> xs \<noteq> [] \<Longrightarrow> drop_nulls (map f xs) \<noteq> []"
  by (cases xs) (auto simp: drop_nulls_def)

lemma aggregate_rows:
  assumes "row \<in> set (aggregate_incoming_damage fmt xs)"
  shows "\<exists>e g. filter (\<lambda>x. group_by_field x = pr_group_by_field row) xs = e # g
               \<and> row = agg fmt (pr_group_by_field row, e # g)"
proof -
  from assms obtain k g where kg: "(k, g) \<in> set (group_by group_by_field xs)" and row: "row = agg fmt (k, g)"
    unfolding aggregate_incoming_damage_def by auto
  have k: "pr_group_by_field row = k" unfolding row by (simp add: agg_def)
  from group_by_group [OF kg] have g: "g = filter (\<lambda>y. group_by_field y = k) xs" and "g \<noteq> []"
    by blast+
  obtain e g' where eg: "g = e # g'" using \<open>g \<noteq> []\<close> by (cases g) auto
  have "filter (\<lambda>x. group_by_field x = pr_group_by_field row) xs = e # g'"
    unfolding k using g eg by (simp only:)
  moreover have "row = agg fmt (pr_group_by_field row, e # g')"
    unfolding k using row eg by (simp only:)
  ultimately show ?thesis by blast
qed

lemma aggregate_keys:
  "distinct (map pr_group_by_field (aggregate_incoming_damage fmt xs))"
  "pr_group_by_field ` set (aggregate_incoming_damage fmt xs) = group_by_field ` set xs"
proof -
  have m: "map pr_group_by_field (map (agg fmt) (group_by group_by_field xs))
      = map fst (group_by group_by_field xs)"
    by (simp add: agg_def)
  have d: "distinct (map pr_group_by_field (map (agg fmt) (group_by group_by_field xs)))"
    unfolding m by (rule group_by_distinct)
  then have "distinct (map (agg fmt) (group_by group_by_field xs))
      \<and> inj_on pr_group_by_field (set (map (agg fmt) (group_by group_by_field xs)))"
    using distinct_map [of pr_group_by_field "map (agg fmt) (group_by group_by_field xs)"] by blast
  then show "distinct (map pr_group_by_field (aggregate_incoming_damage fmt xs))"
    unfolding aggregate_incoming_damage_def
    using distinct_map [of pr_group_by_field
        "sort_key pr_elapsed_seconds (map (agg fmt) (group_by group_by_field xs))"]
    by (metis distinct_sort set_sort)
  have "pr_group_by_field ` set (aggregate_incoming_damage fmt xs)
      = set (map pr_group_by_field (map (agg fmt) (group_by group_by_field xs)))"
    unfolding aggregate_incoming_damage_def by (simp only: set_sort set_map)
  also have "\<dots> = group_by_field ` set xs"
    unfolding m using group_by_keys [of group_by_field xs] by simp
  finally show "pr_group_by_field ` set (aggregate_incoming_damage fmt xs) = group_by_field ` set xs" .
qed

subsection \<open>The aggregated party profile\<close>

text \<open>
  What the aggregation does: the key of an event of category \<open>party\<close> is its
  \<open>packetID\<close> and the key of every other event its \<open>elapsed_seconds\<close>, both in the one
  Float64 column \<open>group_by_field\<close>; the profile has exactly one row for each key that
  occurs. The row of a key holds the median of the \<open>unmitigatedAmount\<close> values of the
  events of that key cast to an integer, the median of their \<open>elapsed_seconds\<close>, and the
  \<open>ability_name\<close>, \<open>description\<close>, \<open>damage_type\<close> and \<open>damage_type_id\<close> of the first
  of them.
\<close>

lemma party_profile_groups:
  assumes "IncomingDamage fmt d pc tc resp = Inr self"
  shows "(\<forall>x \<in> set (party_damage self fu).
            group_by_field x =
              (if damage_category x = Some ''party'' then map_option of_int (packetID x)
               else Some (elapsed_seconds x)))
         \<and> distinct (map pr_group_by_field (get_incoming_damage_profile fmt self fu))
         \<and> pr_group_by_field ` set (get_incoming_damage_profile fmt self fu)
             = group_by_field ` set (party_damage self fu)
         \<and> (\<forall>row \<in> set (get_incoming_damage_profile fmt self fu).
              \<exists>e g. filter (\<lambda>x. group_by_field x = pr_group_by_field row) (party_damage self fu)
                       = e # g
                \<and> (\<forall>x \<in> set (e # g). unmitigatedAmount x \<noteq> None)
                \<and> pr_unmitigatedAmount row =
                    map_option cast_int
                      (median (map of_int (drop_nulls (map unmitigatedAmount (e # g)))))
                \<and> pr_unmitigatedAmount row \<noteq> None
                \<and> pr_elapsed_seconds row = median (map elapsed_seconds (e # g))
                \<and> pr_ability_name row = Some (ability_name e)
                \<and> pr_description row = description e
                \<and> pr_damage_type row = Some (damage_type e)
                \<and> pr_damage_type_id row = Some (damage_type_id e))"
proof -
  note c = constructor_facts [OF assms]
  have A: "group_by_field x =
              (if damage_category x = Some ''party'' then map_option of_int (packetID x)
               else Some (elapsed_seconds x))"
    if "x \<in> set (party_damage self fu)" for x
  proof -
    from that have "x \<in> set (damage_events_table self)" by (simp add: party_damage_iff)
    from table_row_facts(4) [OF c(2) this] show ?thesis
      by (cases "damage_category x") (simp_all add: assign_group_by_field_def)
  qed
  have B: "distinct (map pr_group_by_field (get_incoming_damage_profile fmt self fu))"
    unfolding get_incoming_damage_profile_def by (rule aggregate_keys(1))
  have C: "pr_group_by_field ` set (get_incoming_damage_profile fmt self fu)
             = group_by_field ` set (party_damage self fu)"
    unfolding get_incoming_damage_profile_def by (rule aggregate_keys(2))
  have D: "\<exists>e g. filter (\<lambda>x. group_by_field x = pr_group_by_field row) (party_damage self fu)
                       = e # g
                \<and> (\<forall>x \<in> set (e # g). unmitigatedAmount x \<noteq> None)
                \<and> pr_unmitigatedAmount row =
                    map_option cast_int
                      (median (map of_int (drop_nulls (map unmitigatedAmount (e # g)))))
                \<and> pr_unmitigatedAmount row \<noteq> None
                \<and> pr_elapsed_seconds row = median (map elapsed_seconds (e # g))
                \<and> pr_ability_name row = Some (ability_name e)
                \<and> pr_description row = description e
                \<and> pr_damage_type row = Some (damage_type e)
                \<and> pr_damage_type_id row = Some (damage_type_id e)"
    if "row \<in> set (get_incoming_damage_profile fmt self fu)" for row
  proof -
    from that aggregate_rows obtain e g where
      f: "filter (\<lambda>x. group_by_field x = pr_group_by_field row) (party_damage self fu) = e # g"
      and row: "row = agg fmt (pr_group_by_field row, e # g)"
      unfolding get_incoming_damage_profile_def by blast
    have "set (e # g) \<subseteq> set (party_damage self fu)"
      unfolding f [symmetric] by auto
    moreover have "unmitigatedAmount x \<noteq> None" if "x \<in> set (party_damage self fu)" for x
      using that by (auto simp: party_damage_iff)
    ultimately have nn: "\<forall>x \<in> set (e # g). unmitigatedAmount x \<noteq> None"
      by blast
    have u: "pr_unmitigatedAmount row =
        map_option cast_int (median (map of_int (drop_nulls (map unmitigatedAmount (e # g)))))"
      by (subst row) (simp add: agg_def)
    have "drop_nulls (map unmitigatedAmount (e # g)) \<noteq> []"
      using nn by (intro drop_nulls_all_Some) simp_all
    then have "median (map of_int (drop_nulls (map unmitigatedAmount (e # g)))) \<noteq> None"
      by (intro median_Some) simp
    with u have u': "pr_unmitigatedAmount row \<noteq> None" by simp
    have r: "pr_elapsed_seconds row = median (map elapsed_seconds (e # g))"
      "pr_ability_name row = Some (ability_name e)"
      "pr_description row = description e"
      "pr_damage_type row = Some (damage_type e)"
      "pr_damage_type_id row = Some (damage_type_id e)"
      by (subst row, simp add: agg_def first_def)+
    from f nn u u' r show ?thesis by blast
  qed
  from A B C D show ?thesis by blast
qed

lemma party_profile_groups_example:
  "IncomingDamage format_exact example_dict 300000 600000 example_response = Inr example_self
   \<and> example_party_row \<in> set (get_incoming_damage_profile format_exact example_self True)
   \<and> pr_group_by_field example_party_row = Some 10
   \<and> pr_unmitigatedAmount example_party_row = Some 51000
   \<and> pr_unmitigatedAmount example_party_row \<noteq> None
   \<and> distinct (map pr_group_by_field (get_incoming_damage_profile format_exact example_self True))"
proof -
  note w = party_profile_groups [OF example_constructor, of True]
  have m: "example_party_row \<in> set (get_incoming_damage_profile format_exact example_self True)"
    by code_simp
  have v: "pr_group_by_field example_party_row = Some 10"
    "pr_unmitigatedAmount example_party_row = Some 51000"
    by (simp_all add: example_party_row_def)
  from w m have n: "pr_unmitigatedAmount example_party_row \<noteq> None"
    by blast
  from w have "distinct (map pr_group_by_field (get_incoming_damage_profile format_exact example_self True))"
    by blast
  with example_constructor m v n show ?thesis by blast
qed


text \<open>
  C5: the party profile is sorted by \<open>elapsed_seconds\<close>: of two consecutive rows the
  earlier one has the smaller or equal value (and no value is null).
\<close>

theorem party_profile_sorted:
  "sorted (map pr_elapsed_seconds (get_incoming_damage_profile fmt self fu))
   \<and> (\<forall>i. Suc i < length (get_incoming_damage_profile fmt self fu) \<longrightarrow>
         (\<exists>a b. pr_elapsed_seconds (get_incoming_damage_profile fmt self fu ! i) = Some a
              \<and> pr_elapsed_seconds (get_incoming_damage_profile fmt self fu ! Suc i) = Some b
              \<and> a \<le> b))"
proof -
  let ?out = "get_incoming_damage_profile fmt self fu"
  have s: "sorted (map pr_elapsed_seconds ?out)"
    unfolding get_incoming_damage_profile_def aggregate_incoming_damage_def
    by (rule sorted_sort_key)
  have nn: "\<exists>a. pr_elapsed_seconds row = Some a" if "row \<in> set ?out" for row
  proof -
    from that aggregate_rows obtain e g where "row = agg fmt (pr_group_by_field row, e # g)"
      unfolding get_incoming_damage_profile_def by blast
    then have "pr_elapsed_seconds row = median (map elapsed_seconds (e # g))"
      by (metis agg_def profile_row.select_convs(2) snd_conv)
    moreover have "median (map elapsed_seconds (e # g)) \<noteq> None"
      by (intro median_Some) simp
    ultimately show ?thesis by auto
  qed
  have "\<exists>a b. pr_elapsed_seconds (?out ! i) = Some a
              \<and> pr_elapsed_seconds (?out ! Suc i) = Some b \<and> a \<le> b"
    if i: "Suc i < length ?out" for i
  proof -
    from i nn obtain a b where a: "pr_elapsed_seconds (?out ! i) = Some a"
      and b: "pr_elapsed_seconds (?out ! Suc i) = Some b"
      by (metis Suc_lessD nth_mem)
    from s i have "map pr_elapsed_seconds ?out ! i \<le> map pr_elapsed_seconds ?out ! Suc i"
      by (intro sorted_nth_mono) simp_all
    with i a b have "a \<le> b" by simp
    with a b show ?thesis by blast
  qed
  with s show ?thesis by blast
qed

theorem party_profile_sorted_witness:
  "Suc 0 < length (get_incoming_damage_profile format_exact example_self True)
   \<and> (\<exists>a b. pr_elapsed_seconds (get_incoming_damage_profile format_exact example_self True ! 0) = Some a
         \<and> pr_elapsed_seconds (get_incoming_damage_profile format_exact example_self True ! Suc 0) = Some b
         \<and> a \<le> b)"
proof -
  have l: "Suc 0 < length (get_incoming_damage_profile format_exact example_self True)"
    by code_simp
  with party_profile_sorted [of format_exact example_self True] show ?thesis by blast
qed

subsection \<open>The start of the fight and the elapsed seconds\<close>

lemma find_filter_case:
  "(case filter P xs of [] \<Rightarrow> None | x # _ \<Rightarrow> Some x) = List.find P xs"
  by (induction xs) auto

text \<open>
  What the code does: \<open>_get_start_timestamp\<close> returns the timestamp of the first
  \<open>limitbreakupdate\<close> event of the \<open>startingEvent\<close> data; when there is none, or the
  data cannot be read, it returns the timestamp of the first record of the damage-taken
  \<open>events\<close> data, of whatever type. Every \<open>elapsed_seconds\<close> of the table is the
  timestamp of its event minus this start, divided by 1000.
\<close>

lemma start_timestamp_and_elapsed_seconds:
  "(\<forall>evs e. startingEvent resp = Some evs
        \<and> List.find (\<lambda>e. raw_type e = ''limitbreakupdate'') evs = Some e
      \<longrightarrow> get_start_timestamp resp = Inr (raw_timestamp e))
   \<and> ((startingEvent resp = None
        \<or> (\<exists>evs. startingEvent resp = Some evs
              \<and> List.find (\<lambda>e. raw_type e = ''limitbreakupdate'') evs = None))
      \<longrightarrow> (\<forall>f fs. events resp = f # fs \<longrightarrow> get_start_timestamp resp = Inr (raw_timestamp f)))
   \<and> (\<forall>self. IncomingDamage fmt d pc tc resp = Inr self \<longrightarrow>
         get_start_timestamp resp = Inr (start_timestamp self)
         \<and> (\<forall>r \<in> set (damage_events_table self).
               \<exists>e \<in> set (events resp). raw_type e = ''damage''
                 \<and> targetID r = raw_targetID e
                 \<and> unmitigatedAmount r = raw_unmitigatedAmount e
                 \<and> packetID r = raw_packetID e
                 \<and> elapsed_seconds r = of_int (raw_timestamp e - start_timestamp self) / 1000))"
proof -
  have A: "get_start_timestamp resp = Inr (raw_timestamp e)"
    if "startingEvent resp = Some evs"
      and "List.find (\<lambda>e. raw_type e = ''limitbreakupdate'') evs = Some e" for evs e
    using that find_filter_case [of "\<lambda>e. raw_type e = ''limitbreakupdate''" evs]
    by (auto simp: get_start_timestamp_def limit_break_timestamp_def split: list.splits)
  have B: "get_start_timestamp resp = Inr (raw_timestamp f)"
    if "startingEvent resp = None
        \<or> (\<exists>evs. startingEvent resp = Some evs
              \<and> List.find (\<lambda>e. raw_type e = ''limitbreakupdate'') evs = None)"
      and "events resp = f # fs" for f fs
  proof -
    from that(1) have "\<exists>x. limit_break_timestamp resp = Inl x"
    proof
      assume "startingEvent resp = None"
      then show ?thesis by (simp add: limit_break_timestamp_def)
    next
      assume "\<exists>evs. startingEvent resp = Some evs
              \<and> List.find (\<lambda>e. raw_type e = ''limitbreakupdate'') evs = None"
      then obtain evs where "startingEvent resp = Some evs"
        and "List.find (\<lambda>e. raw_type e = ''limitbreakupdate'') evs = None"
        by blast
      then show ?thesis
        using find_filter_case [of "\<lambda>e. raw_type e = ''limitbreakupdate''" evs]
        by (auto simp: limit_break_timestamp_def split: list.splits)
    qed
    with that(2) show ?thesis by (auto simp: get_start_timestamp_def)
  qed
  have C: "get_start_timestamp resp = Inr (start_timestamp self)
         \<and> (\<forall>r \<in> set (damage_events_table self).
               \<exists>e \<in> set (events resp). raw_type e = ''damage''
                 \<and> targetID r = raw_targetID e
                 \<and> unmitigatedAmount r = raw_unmitigatedAmount e
                 \<and> packetID r = raw_packetID e
                 \<and> elapsed_seconds r = of_int (raw_timestamp e - start_timestamp self) / 1000)"
    if "IncomingDamage fmt d pc tc resp = Inr self" for self
  proof -
    note c = constructor_facts [OF that]
    show ?thesis using c(1) table_row_facts(1) [OF c(2)] by blast
  qed
  from A B C show ?thesis by blast
qed

lemma start_timestamp_and_elapsed_seconds_example:
  "startingEvent example_response
     = Some [example_event ''limitbreakupdate'' 1000 None 0 0 None None]
   \<and> List.find (\<lambda>e. raw_type e = ''limitbreakupdate'')
         [example_event ''limitbreakupdate'' 1000 None 0 0 None None]
       = Some (example_event ''limitbreakupdate'' 1000 None 0 0 None None)
   \<and> get_start_timestamp example_response = Inr 1000
   \<and> startingEvent example_response_no_lb = Some []
   \<and> List.find (\<lambda>e. raw_type e = ''limitbreakupdate'') [] = None
   \<and> events example_response_no_lb
       = example_event ''calculateddamage'' 2900 (Some 10) 2 42 (Some 50000) None
           # tl (events example_response_no_lb)
   \<and> get_start_timestamp example_response_no_lb = Inr 2900
   \<and> IncomingDamage format_exact example_dict 300000 600000 example_response = Inr example_self
   \<and> example_buster_row \<in> set (damage_events_table example_self)
   \<and> (\<exists>e \<in> set (events example_response).
         raw_type e = ''damage''
         \<and> elapsed_seconds example_buster_row
             = of_int (raw_timestamp e - start_timestamp example_self) / 1000)"
proof -
  let ?lb = "example_event ''limitbreakupdate'' 1000 None 0 0 None None"
  let ?first = "example_event ''calculateddamage'' 2900 (Some 10) 2 42 (Some 50000) None"
  note w = start_timestamp_and_elapsed_seconds [where resp = example_response and fmt = format_exact
      and d = example_dict and pc = 300000 and tc = 600000]
  note w' = start_timestamp_and_elapsed_seconds [where resp = example_response_no_lb and fmt = format_exact
      and d = example_dict and pc = 300000 and tc = 600000]
  have s: "startingEvent example_response = Some [?lb]"
    by (simp add: example_response_def)
  have f: "List.find (\<lambda>e. raw_type e = ''limitbreakupdate'') [?lb] = Some ?lb"
    by (simp add: example_event_def)
  have t: "raw_timestamp ?lb = 1000" "raw_timestamp ?first = 2900"
    by (simp_all add: example_event_def)
  from w s f have a: "get_start_timestamp example_response = Inr (raw_timestamp ?lb)"
    by blast
  have s': "startingEvent example_response_no_lb = Some []"
    by (simp add: example_response_no_lb_def)
  have f': "List.find (\<lambda>e. raw_type e = ''limitbreakupdate'') ([] :: raw_event list) = None"
    by simp
  have e': "events example_response_no_lb = ?first # tl (events example_response_no_lb)"
    by (simp add: example_response_no_lb_def example_response_def)
  from w' s' f' e'
  have b: "get_start_timestamp example_response_no_lb = Inr (raw_timestamp ?first)"
    by blast
  from w example_constructor example_rows_in_table(2)
  have c: "\<exists>e \<in> set (events example_response).
         raw_type e = ''damage''
         \<and> elapsed_seconds example_buster_row
             = of_int (raw_timestamp e - start_timestamp example_self) / 1000"
    by blast
  from s f a s' f' e' b c t example_constructor example_rows_in_table(2)
  show ?thesis by (simp only:) simp
qed


subsection \<open>The columns of the table\<close>

text \<open>
  C8, as stated, fails: the processed damage events table does not have seven columns.
\<close>

theorem damage_events_table_not_seven_columns:
  "length damage_events_table_columns \<noteq> 7"
  by (simp add: damage_events_table_columns_def damage_category_table_columns_def
      with_columns_def join_columns_def)

text \<open>
  C8, amended: the table has nineteen columns, among them the timestamp offset
  (\<open>elapsed_seconds\<close>), the ability id and name, the raw and the unmitigated amount, the
  target id, the buff list and the damage category.
\<close>

theorem damage_events_table_nineteen_columns:
  "damage_events_table_columns =
     [''elapsed_seconds'', ''packetID'', ''hitType'', ''amount'', ''unmitigatedAmount'',
      ''targetID'', ''buff_list'', ''ability_name'', ''ability_id'', ''damage_type_id'',
      ''formatted_time'', ''is_tank'', ''is_vuln_damage'', ''damage_type'',
      ''damage_category'', ''is_tank_damage'', ''ability_name_right'', ''description'',
      ''group_by_field'']
   \<and> length damage_events_table_columns = 19"
  by (simp add: damage_events_table_columns_def damage_category_table_columns_def
      with_columns_def join_columns_def)

subsection \<open>The GraphQL request\<close>

text \<open>
  C7, as stated, fails: a response with the successful status 200 whose body is not JSON
  makes \<open>gql_query\<close> raise.
\<close>

theorem gql_query_raises_on_successful_status:
  "example_post example_html_response (headers ''token'') BASE_URL
       \<lparr>query = ''query'', variables = (), operationName = ''DamageEvents''\<rparr>
     = Inr example_html_response
   \<and> status_code example_html_response = 200
   \<and> raise_for_status example_html_response = Inr ()
   \<and> gql_query (example_post example_html_response) ''token'' ''query'' () ''DamageEvents''
       = Inl JSONDecodeError"
  by (simp add: gql_query_def example_post_def example_html_response_def raise_for_status_def)

text \<open>
  C7, amended: \<open>gql_query\<close> raises when the POST itself raises, and raises
  \<open>HTTPError\<close> when the POST returns a status from 400 to 599; for any other status it
  returns what \<open>response.json()\<close> gives: the parsed body, or the exception of a body that
  is not JSON.
\<close>

theorem gql_query_result:
  "(\<forall>e. post (headers token) BASE_URL \<lparr>query = q, variables = vars, operationName = operation\<rparr>
          = Inl e
        \<longrightarrow> gql_query post token q vars operation = Inl e)
   \<and> (\<forall>r. post (headers token) BASE_URL \<lparr>query = q, variables = vars, operationName = operation\<rparr>
          = Inr r
        \<longrightarrow> (400 \<le> status_code r \<and> status_code r < 600
              \<longrightarrow> gql_query post token q vars operation = Inl (HTTPError (status_code r)))
          \<and> (\<not> (400 \<le> status_code r \<and> status_code r < 600)
              \<longrightarrow> gql_query post token q vars operation = json r))"
  by (simp add: gql_query_def raise_for_status_def)

theorem gql_query_result_witness:
  "example_post_fails (headers ''token'') BASE_URL
       \<lparr>query = ''query'', variables = (), operationName = ''DamageEvents''\<rparr>
     = Inl ConnectionError
   \<and> gql_query example_post_fails ''token'' ''query'' () ''DamageEvents'' = Inl ConnectionError
   \<and> example_post example_error_response (headers ''token'') BASE_URL
       \<lparr>query = ''query'', variables = (), operationName = ''DamageEvents''\<rparr>
     = Inr example_error_response
   \<and> 400 \<le> status_code example_error_response \<and> status_code example_error_response < 600
   \<and> gql_query (example_post example_error_response) ''token'' ''query'' () ''DamageEvents''
       = Inl (HTTPError 500)
   \<and> example_post example_json_response (headers ''token'') BASE_URL
       \<lparr>query = ''query'', variables = (), operationName = ''DamageEvents''\<rparr>
     = Inr example_json_response
   \<and> \<not> (400 \<le> status_code example_json_response \<and> status_code example_json_response < 600)
   \<and> gql_query (example_post example_json_response) ''token'' ''query'' () ''DamageEvents''
       = Inr (JObject [(''data'', JNull)])"
proof -
  let ?p = "\<lparr>query = ''query'', variables = (), operationName = ''DamageEvents''\<rparr>"
  have a: "example_post_fails (headers ''token'') BASE_URL ?p = Inl ConnectionError"
    by (simp add: example_post_fails_def)
  from gql_query_result [of example_post_fails "''token''" "''query''" "()" "''DamageEvents''"] a
  have a': "gql_query example_post_fails ''token'' ''query'' () ''DamageEvents''
      = Inl ConnectionError"
    by blast
  have b: "example_post example_error_response (headers ''token'') BASE_URL ?p
      = Inr example_error_response"
    by (simp add: example_post_def)
  have bs: "400 \<le> status_code example_error_response \<and> status_code example_error_response < 600"
    "status_code example_error_response = 500"
    by (simp_all add: example_error_response_def)
  from gql_query_result [of "example_post example_error_response" "''token''" "''query''" "()"
      "''DamageEvents''"] b bs(1)
  have "gql_query (example_post example_error_response) ''token'' ''query'' () ''DamageEvents''
      = Inl (HTTPError (status_code example_error_response))"
    by blast
  then have b': "gql_query (example_post example_error_response) ''token'' ''query'' ()
      ''DamageEvents'' = Inl (HTTPError 500)"
    using bs(2) by simp
  have c: "example_post example_json_response (headers ''token'') BASE_URL ?p
      = Inr example_json_response"
    by (simp add: example_post_def)
  have cs: "\<not> (400 \<le> status_code example_json_response
      \<and> status_code example_json_response < 600)"
    "json example_json_response = Inr (JObject [(''data'', JNull)])"
    by (simp_all add: example_json_response_def)
  from gql_query_result [of "example_post example_json_response" "''token''" "''query''" "()"
      "''DamageEvents''"] c cs(1)
  have "gql_query (example_post example_json_response) ''token'' ''query'' () ''DamageEvents''
      = json example_json_response"
    by blast
  then have c': "gql_query (example_post example_json_response) ''token'' ''query'' ()
      ''DamageEvents'' = Inr (JObject [(''data'', JNull)])"
    using cs(2) by simp
  from a a' b bs(1) b' c cs(1) c' show ?thesis by blast
qed

subsection \<open>The static page generator\<close>

lemma fight_step_loop:
  "snd (foldl (fight_step gen) (w, html) logs)
     = html @ concat (map (\<lambda>(fight_name, data).
         case snd (gen fight_name data) of
           Inr section_html \<Rightarrow> section_html
         | Inl msg \<Rightarrow> error_section fight_name msg) logs)
   \<and> dirs (fst (foldl (fight_step gen) (w, html) logs)) = dirs w
   \<and> files (fst (foldl (fight_step gen) (w, html) logs)) = files w
   \<and> set (stdout w) \<subseteq> set (stdout (fst (foldl (fight_step gen) (w, html) logs)))
   \<and> (\<forall>fight_name data msg.
        (fight_name, data) \<in> set logs \<longrightarrow> snd (gen fight_name data) = Inl msg \<longrightarrow>
        ''Error processing '' @ fight_name @ '': '' @ msg
          \<in> set (stdout (fst (foldl (fight_step gen) (w, html) logs))))"
proof (induction logs arbitrary: w html)
  case Nil
  show ?case by simp
next
  case (Cons l logs)
  obtain n dt where l: "l = (n, dt)" by (cases l)
  obtain printed res where g: "gen n dt = (printed, res)" by (cases "gen n dt")
  obtain w' html' where st: "fight_step gen (w, html) l = (w', html')"
    by (cases "fight_step gen (w, html) l")
  have h: "html' = html @ (case res of Inr section_html \<Rightarrow> section_html
                           | Inl msg \<Rightarrow> error_section n msg)"
    and d: "dirs w' = dirs w" and f: "files w' = files w"
    and o: "set (stdout w) \<subseteq> set (stdout w')"
    and er: "\<And>msg. res = Inl msg \<Longrightarrow> ''Error processing '' @ n @ '': '' @ msg \<in> set (stdout w')"
    using st g by (auto simp: l fight_step_def Let_def print_def split: sum.splits)
  have step: "foldl (fight_step gen) (w, html) (l # logs) = foldl (fight_step gen) (w', html') logs"
    using st by simp
  have sec: "(case l of (fight_name, data) \<Rightarrow>
                 case snd (gen fight_name data) of
                   Inr section_html \<Rightarrow> section_html
                 | Inl msg \<Rightarrow> error_section fight_name msg)
      = (case res of Inr section_html \<Rightarrow> section_html | Inl msg \<Rightarrow> error_section n msg)"
    unfolding l using g by simp
  note IH = Cons.IH [of w' html']
  have "snd (foldl (fight_step gen) (w', html') logs)
      = html' @ concat (map (\<lambda>(fight_name, data).
         case snd (gen fight_name data) of
           Inr section_html \<Rightarrow> section_html
         | Inl msg \<Rightarrow> error_section fight_name msg) logs)"
    using IH by blast
  also have "\<dots> = html @ concat (map (\<lambda>(fight_name, data).
         case snd (gen fight_name data) of
           Inr section_html \<Rightarrow> section_html
         | Inl msg \<Rightarrow> error_section fight_name msg) (l # logs))"
    using sec by (simp add: h)
  finally have A: "snd (foldl (fight_step gen) (w', html') logs)
      = html @ concat (map (\<lambda>(fight_name, data).
         case snd (gen fight_name data) of
           Inr section_html \<Rightarrow> section_html
         | Inl msg \<Rightarrow> error_section fight_name msg) (l # logs))" .
  have B: "dirs (fst (foldl (fight_step gen) (w', html') logs)) = dirs w"
    using IH d by simp
  have C: "files (fst (foldl (fight_step gen) (w', html') logs)) = files w"
    using IH f by simp
  have D': "set (stdout w') \<subseteq> set (stdout (fst (foldl (fight_step gen) (w', html') logs)))"
    using IH by blast
  then have D: "set (stdout w) \<subseteq> set (stdout (fst (foldl (fight_step gen) (w', html') logs)))"
    using o by blast
  have E: "''Error processing '' @ fight_name @ '': '' @ msg
          \<in> set (stdout (fst (foldl (fight_step gen) (w', html') logs)))"
    if m: "(fight_name, data) \<in> set (l # logs)" and r: "snd (gen fight_name data) = Inl msg"
    for fight_name data msg
  proof (cases "(fight_name, data) = l")
    case True
    with l g r have "res = Inl msg" "fight_name = n" by auto
    with er have "''Error processing '' @ fight_name @ '': '' @ msg \<in> set (stdout w')"
      by simp
    with D' show ?thesis by blast
  next
    case False
    with m have "(fight_name, data) \<in> set logs" by auto
    with IH r show ?thesis by blast
  qed
  from A B C D E show ?case unfolding step by blast
qed

lemma main_sections:
  "files (main gen logs w0) ''docs/index.html''
     = Some (generate_html_header @ generate_table_of_contents logs
             @ concat (map (\<lambda>(fight_name, data).
                 case snd (gen fight_name data) of
                   Inr section_html \<Rightarrow> section_html
                 | Inl msg \<Rightarrow> error_section fight_name msg) logs)
             @ generate_html_footer)
   \<and> ''docs'' \<in> dirs (main gen logs w0)
   \<and> (\<forall>(fight_name, data) \<in> set logs. \<forall>msg.
         snd (gen fight_name data) = Inl msg \<longrightarrow>
         ''Error processing '' @ fight_name @ '': '' @ msg \<in> set (stdout (main gen logs w0)))"
proof -
  let ?w1 = "print ''Generating static HTML page...'' w0"
  let ?h0 = "generate_html_header @ generate_table_of_contents logs"
  obtain w2 html where loop: "foldl (fight_step gen) (?w1, ?h0) logs = (w2, html)"
    by (cases "foldl (fight_step gen) (?w1, ?h0) logs")
  have m: "main gen logs w0 =
      print ''Static page generated: docs/index.html''
        (write_file ''docs/index.html'' (html @ generate_html_footer) (makedirs ''docs'' w2))"
    unfolding main_def Let_def loop by simp
  have html: "html = ?h0 @ concat (map (\<lambda>(fight_name, data).
                 case snd (gen fight_name data) of
                   Inr section_html \<Rightarrow> section_html
                 | Inl msg \<Rightarrow> error_section fight_name msg) logs)"
    using fight_step_loop [of gen ?w1 ?h0 logs] loop by simp
  have A: "files (main gen logs w0) ''docs/index.html''
     = Some (generate_html_header @ generate_table_of_contents logs
             @ concat (map (\<lambda>(fight_name, data).
                 case snd (gen fight_name data) of
                   Inr section_html \<Rightarrow> section_html
                 | Inl msg \<Rightarrow> error_section fight_name msg) logs)
             @ generate_html_footer)"
    unfolding m html by (simp add: print_def write_file_def makedirs_def)
  have B: "''docs'' \<in> dirs (main gen logs w0)"
    unfolding m by (simp add: print_def write_file_def makedirs_def)
  have C: "''Error processing '' @ fight_name @ '': '' @ msg \<in> set (stdout (main gen logs w0))"
    if "(fight_name, data) \<in> set logs" "snd (gen fight_name data) = Inl msg"
    for fight_name data msg
  proof -
    from fight_step_loop [of gen ?w1 ?h0 logs] that loop
    have "''Error processing '' @ fight_name @ '': '' @ msg \<in> set (stdout w2)" by simp
    then show ?thesis
      unfolding m by (simp add: print_def write_file_def makedirs_def)
  qed
  from A B C show ?thesis by blast
qed

text \<open>
  C6: whatever the section generator does, \<open>main\<close> writes the output file, and the file
  holds, between header and footer, one section per fight in the order of the log list:
  the generated section, or, when generating it raised, the error placeholder, a
  \<open>fight-section\<close> block with the lower-case fight name as its id, the fight name as
  its title and the message of the exception in an alert. For every fight that raised,
  the error is reported on the standard output.
\<close>

theorem main_catches_and_writes:
  \<open>files (main gen logs w0) ''docs/index.html''
     = Some (generate_html_header @ generate_table_of_contents logs
             @ concat (map (\<lambda>(fight_name, data).
                 case snd (gen fight_name data) of
                   Inr section_html \<Rightarrow> section_html
                 | Inl msg \<Rightarrow>
                     nl @ ''    <div class="fight-section" id="'' @ lower fight_name @ ''">'' @ nl @
                     ''        <h2 class="fight-title">'' @ fight_name @ ''</h2>'' @ nl @
                     ''        <div class="alert alert-danger" role="alert">'' @ nl @
                     ''            Error generating data for this fight: '' @ msg @ nl @
                     ''        </div>'' @ nl @
                     ''    </div>'' @ nl) logs)
             @ generate_html_footer)
   \<and> ''docs'' \<in> dirs (main gen logs w0)
   \<and> (\<forall>(fight_name, data) \<in> set logs. \<forall>msg.
         snd (gen fight_name data) = Inl msg \<longrightarrow>
         ''Error processing '' @ fight_name @ '': '' @ msg \<in> set (stdout (main gen logs w0)))\<close>
  using main_sections [of gen logs w0] unfolding error_section_def .

theorem main_catches_and_writes_witness:
  \<open>(''M9N'', \<lparr>report_id = ''HFK9wckdY1jCMZ27'', fight_id = 41, party_damage_dict = example_dict\<rparr>)
     \<in> set example_logs
   \<and> snd (example_gen ''M9N''
        \<lparr>report_id = ''HFK9wckdY1jCMZ27'', fight_id = 41, party_damage_dict = example_dict\<rparr>)
       = Inl ''401 Client Error''
   \<and> ''Error processing M9N: 401 Client Error''
       \<in> set (stdout (main example_gen example_logs example_world))
   \<and> files (main example_gen example_logs example_world) ''docs/index.html''
       = Some (generate_html_header @ generate_table_of_contents example_logs
               @ [CHR 0x0A] @ ''    <div class="fight-section" id="m9n">'' @ [CHR 0x0A]
               @ ''        <h2 class="fight-title">M9N</h2>'' @ [CHR 0x0A]
               @ ''        <div class="alert alert-danger" role="alert">'' @ [CHR 0x0A]
               @ ''            Error generating data for this fight: 401 Client Error''
               @ [CHR 0x0A]
               @ ''        </div>'' @ [CHR 0x0A]
               @ ''    </div>'' @ [CHR 0x0A]
               @ ''<div>M10N</div>''
               @ generate_html_footer)\<close>
proof -
  let ?d = "\<lparr>report_id = ''HFK9wckdY1jCMZ27'', fight_id = 41, party_damage_dict = example_dict\<rparr>"
  note w = main_catches_and_writes [of example_gen example_logs example_world]
  have i: "(''M9N'', ?d) \<in> set example_logs"
    by (simp add: example_logs_def)
  have r: "snd (example_gen ''M9N'' ?d) = Inl ''401 Client Error''"
    by (simp add: example_gen_def)
  from w i r
  have "''Error processing '' @ ''M9N'' @ '': '' @ ''401 Client Error''
      \<in> set (stdout (main example_gen example_logs example_world))"
    by blast
  then have e: "''Error processing M9N: 401 Client Error''
      \<in> set (stdout (main example_gen example_logs example_world))"
    by simp
  have l: "lower ''M9N'' = ''m9n''"
    by code_simp
  have \<open>concat (map (\<lambda>(fight_name, data).
                 case snd (example_gen fight_name data) of
                   Inr section_html \<Rightarrow> section_html
                 | Inl msg \<Rightarrow>
                     nl @ ''    <div class="fight-section" id="'' @ lower fight_name @ ''">'' @ nl @
                     ''        <h2 class="fight-title">'' @ fight_name @ ''</h2>'' @ nl @
                     ''        <div class="alert alert-danger" role="alert">'' @ nl @
                     ''            Error generating data for this fight: '' @ msg @ nl @
                     ''        </div>'' @ nl @
                     ''    </div>'' @ nl) example_logs)
      = [CHR 0x0A] @ ''    <div class="fight-section" id="m9n">'' @ [CHR 0x0A]
               @ ''        <h2 class="fight-title">M9N</h2>'' @ [CHR 0x0A]
               @ ''        <div class="alert alert-danger" role="alert">'' @ [CHR 0x0A]
               @ ''            Error generating data for this fight: 401 Client Error''
               @ [CHR 0x0A]
               @ ''        </div>'' @ [CHR 0x0A]
               @ ''    </div>'' @ [CHR 0x0A]
               @ ''<div>M10N</div>''\<close>
    by (simp add: example_logs_def example_gen_def nl_def l)
  with w have f: \<open>files (main example_gen example_logs example_world) ''docs/index.html''
       = Some (generate_html_header @ generate_table_of_contents example_logs
               @ [CHR 0x0A] @ ''    <div class="fight-section" id="m9n">'' @ [CHR 0x0A]
               @ ''        <h2 class="fight-title">M9N</h2>'' @ [CHR 0x0A]
               @ ''        <div class="alert alert-danger" role="alert">'' @ [CHR 0x0A]
               @ ''            Error generating data for this fight: 401 Client Error''
               @ [CHR 0x0A]
               @ ''        </div>'' @ [CHR 0x0A]
               @ ''    </div>'' @ [CHR 0x0A]
               @ ''<div>M10N</div>''
               @ generate_html_footer)\<close>
    by simp
  from i r e f show ?thesis by blast
qed

end
